theory Spec2Isabelle
  imports Main
begin

section \<open>Python values used by the two back ends\<close>

text \<open>
  Both files (\<^verbatim>\<open>app.py\<close> and \<^verbatim>\<open>corbas_backend_NOCACHE.py\<close>) are Flask handlers
  around a spaCy pipeline. Strings are modelled as \<^typ>\<open>string\<close>, lists of 8-bit
  characters. The only string operation of the code is \<^verbatim>\<open>str.lower()\<close>; \<open>lower\<close> below
  is its action on ASCII text (\<^verbatim>\<open>A\<close>..\<^verbatim>\<open>Z\<close> become \<^verbatim>\<open>a\<close>..\<^verbatim>\<open>z\<close>, every other
  character is kept). Python lower-cases all of Unicode: a lemma with a character
  outside ASCII (for instance the Kelvin sign U+212A, which Python turns into \<^verbatim>\<open>k\<close>) is
  outside this model of \<open>lower\<close>. All vocabulary words of the code are ASCII. The general
  theorems below speak about \<open>lower l\<close> without unfolding it, so they do not depend on
  how \<open>lower\<close> acts; only the concrete examples, all ASCII, evaluate it.
\<close>

definition lower_char :: "char \<Rightarrow> char" where
  "lower_char c =
     (let n = of_char c :: nat in if 65 \<le> n \<and> n \<le> 90 then char_of (n + 32) else c)"

definition lower :: "string \<Rightarrow> string" where
  "lower s = map lower_char s"

text \<open>
  A raised exception: the name of its class and its argument. Reading an attribute that
  an object does not carry raises \<^verbatim>\<open>AttributeError\<close>; its argument is kept as the name
  of the attribute. Neither file defines an exception class of its own.
\<close>

datatype py_exception = PyException (exc_class: string) (exc_arg: string)

abbreviation AttributeError :: "string \<Rightarrow> py_exception" where
  "AttributeError name \<equiv> PyException ''AttributeError'' name"

definition getattr :: "string \<Rightarrow> 'a option \<Rightarrow> py_exception + 'a" where
  "getattr name v = (case v of None \<Rightarrow> Inl (AttributeError name) | Some x \<Rightarrow> Inr x)"

section \<open>Tokens and annotations\<close>

text \<open>
  A token as the handlers read it. Each field is the value of one attribute of the spaCy
  token, \<open>None\<close> when the object does not carry the attribute:
  \<^verbatim>\<open>token.text\<close>, \<^verbatim>\<open>token.pos_\<close>, \<^verbatim>\<open>token.tag_\<close>, \<^verbatim>\<open>token.dep_\<close>, \<^verbatim>\<open>token.head.i\<close>,
  \<^verbatim>\<open>token.lemma_\<close>, \<^verbatim>\<open>token.is_stop\<close>, \<^verbatim>\<open>token.is_punct\<close>.
  \<open>tok_underscore\<close> is the attribute \<^verbatim>\<open>token._\<close>, the object that holds the extension
  attributes; its \<open>pymusas_tags\<close> is \<open>None\<close> when \<^verbatim>\<open>hasattr(token._, 'pymusas_tags')\<close>
  is false and \<open>Some tags\<close> otherwise.
\<close>

datatype underscore = Underscore (pymusas_tags: "string list option")

record token =
  tok_text :: "string option"
  tok_pos :: "string option"
  tok_tag :: "string option"
  tok_dep :: "string option"
  tok_head :: "nat option"
  tok_lemma :: "string option"
  tok_is_stop :: "bool option"
  tok_is_punct :: "bool option"
  tok_underscore :: "underscore option"

text \<open>
  One entry of the \<^verbatim>\<open>tokens\<close> list of the response; the fields are the keys of the
  dictionary the loop appends (\<open>lemma_text\<close> is the key \<^verbatim>\<open>"lemma"\<close>).
\<close>

record annotation =
  word :: string
  pos :: string
  tag :: string
  semantic :: string
  dep :: string
  head :: nat
  lemma_text :: string
  is_stop :: bool
  is_punct :: bool

section \<open>The fallback semantic tagger of app.py\<close>

definition emotion_positive :: "string set" where
  "emotion_positive =
     {''happy'', ''joy'', ''delighted'', ''pleased'', ''excited'', ''love'', ''wonderful''}"

definition emotion_negative :: "string set" where
  "emotion_negative =
     {''sad'', ''angry'', ''fear'', ''hate'', ''anxious'', ''worried'', ''upset'', ''depressed''}"

definition movement_verbs :: "string set" where
  "movement_verbs =
     {''go'', ''come'', ''move'', ''walk'', ''run'', ''travel'', ''arrive'', ''leave'', ''enter''}"

definition speech_verbs :: "string set" where
  "speech_verbs =
     {''say'', ''tell'', ''speak'', ''talk'', ''communicate'', ''discuss'', ''mention'', ''ask''}"

definition thought_verbs :: "string set" where
  "thought_verbs =
     {''think'', ''believe'', ''know'', ''understand'', ''consider'', ''realize'', ''remember''}"

definition positive_adj :: "string set" where
  "positive_adj =
     {''good'', ''great'', ''excellent'', ''wonderful'', ''amazing'', ''beautiful'', ''perfect'',
      ''nice''}"

definition negative_adj :: "string set" where
  "negative_adj =
     {''bad'', ''poor'', ''terrible'', ''awful'', ''horrible'', ''ugly'', ''wrong'', ''worse''}"

definition time_words :: "string set" where
  "time_words =
     {''today'', ''tomorrow'', ''yesterday'', ''now'', ''then'', ''soon'', ''later'', ''before'',
      ''after''}"

text \<open>
  The body of \<^verbatim>\<open>get_semantic_fallback\<close> in \<^verbatim>\<open>app.py\<close> once \<^verbatim>\<open>token.pos_\<close> and
  \<^verbatim>\<open>token.lemma_\<close> have been read: \<open>l\<close> is \<^verbatim>\<open>token.lemma_\<close> as it stands, \<open>p\<close> is
  \<^verbatim>\<open>token.pos_\<close>. The chain of \<^verbatim>\<open>if ... return\<close> statements is kept in its order.
\<close>

definition semantic_fallback :: "string \<Rightarrow> string \<Rightarrow> string" where
  "semantic_fallback l p =
     (let lemma_lc = lower l in
      if lemma_lc \<in> emotion_positive then ''E1.1+''
      else if lemma_lc \<in> emotion_negative then ''E1.1-''
      else if lemma_lc \<in> movement_verbs then ''M1''
      else if lemma_lc \<in> speech_verbs then ''Q2.2''
      else if lemma_lc \<in> thought_verbs then ''X2.1''
      else if lemma_lc \<in> positive_adj then ''A5.1+''
      else if lemma_lc \<in> negative_adj then ''A5.1-''
      else if lemma_lc \<in> time_words then ''T1''
      else if p = ''NOUN'' then ''O2''
      else if p = ''PROPN'' then ''Z3''
      else if p = ''VERB'' then ''A3+''
      else if p = ''ADJ'' then ''A5''
      else if p = ''ADV'' then ''A13''
      else if p = ''NUM'' then ''N1''
      else if p = ''ADP'' then ''Z5''
      else if p = ''DET'' then ''Z5''
      else if p = ''PRON'' then ''Z8''
      else ''Z99'')"

text \<open>
  \<^verbatim>\<open>get_semantic_fallback(token)\<close> of \<^verbatim>\<open>app.py\<close>: it reads \<^verbatim>\<open>token.pos_\<close>, then
  \<^verbatim>\<open>token.lemma_\<close>, and runs the chain above.
\<close>

definition get_semantic_fallback :: "token \<Rightarrow> py_exception + string" where
  "get_semantic_fallback token =
     (case getattr ''pos_'' (tok_pos token) of
        Inl e \<Rightarrow> Inl e
      | Inr p \<Rightarrow>
          (case getattr ''lemma_'' (tok_lemma token) of
             Inl e \<Rightarrow> Inl e
           | Inr l \<Rightarrow> Inr (semantic_fallback l p)))"

section \<open>The fallback semantic tagger of corbas_backend_NOCACHE.py\<close>

definition emotion_pos :: "string set" where
  "emotion_pos =
     {''happy'', ''joy'', ''delighted'', ''pleased'', ''excited'', ''love'', ''wonderful''}"

definition emotion_neg :: "string set" where
  "emotion_neg = {''sad'', ''angry'', ''fear'', ''hate'', ''anxious'', ''worried'', ''upset''}"

definition movement :: "string set" where
  "movement = {''go'', ''come'', ''move'', ''walk'', ''run'', ''travel'', ''arrive'', ''leave''}"

definition speech :: "string set" where
  "speech = {''say'', ''tell'', ''speak'', ''talk'', ''communicate'', ''discuss'', ''ask''}"

definition thought :: "string set" where
  "thought = {''think'', ''believe'', ''know'', ''understand'', ''consider'', ''realize''}"

definition semantic_fallback_nocache :: "string \<Rightarrow> string \<Rightarrow> string" where
  "semantic_fallback_nocache l p =
     (let lemma_lc = lower l in
      if lemma_lc \<in> emotion_pos then ''E1.1+''
      else if lemma_lc \<in> emotion_neg then ''E1.1-''
      else if lemma_lc \<in> movement then ''M1''
      else if lemma_lc \<in> speech then ''Q2.2''
      else if lemma_lc \<in> thought then ''X2.1''
      else if p = ''NOUN'' then ''O2''
      else if p = ''PROPN'' then ''Z3''
      else if p = ''VERB'' then ''A3+''
      else if p = ''ADJ'' then ''A5''
      else if p = ''ADV'' then ''A13''
      else if p = ''NUM'' then ''N1''
      else if p \<in> set [''ADP'', ''DET''] then ''Z5''
      else if p = ''PRON'' then ''Z8''
      else ''Z99'')"

definition get_semantic_fallback_nocache :: "token \<Rightarrow> py_exception + string" where
  "get_semantic_fallback_nocache token =
     (case getattr ''pos_'' (tok_pos token) of
        Inl e \<Rightarrow> Inl e
      | Inr p \<Rightarrow>
          (case getattr ''lemma_'' (tok_lemma token) of
             Inl e \<Rightarrow> Inl e
           | Inr l \<Rightarrow> Inr (semantic_fallback_nocache l p)))"

section \<open>The analyze handler\<close>

text \<open>
  The first statement of the loop body of \<^verbatim>\<open>analyze_text\<close>, the same in both files:
  \<^verbatim>\<open>
  if HAS_PYMUSAS and hasattr(token._, 'pymusas_tags'):
      semantic_tags = token._.pymusas_tags
      primary_semantic = semantic_tags[0] if semantic_tags else 'Z99'
  else:
      primary_semantic = get_semantic_fallback(token)
  \<close>
  The fallback function is a parameter, since each file calls its own. When the flag is
  set, \<^verbatim>\<open>token._\<close> is read before \<^verbatim>\<open>hasattr\<close> is called, so a token without that
  attribute raises; when the flag is not set, \<^verbatim>\<open>and\<close> stops before the read.
\<close>

definition primary_semantic ::
  "(token \<Rightarrow> py_exception + string) \<Rightarrow> bool \<Rightarrow> token \<Rightarrow> py_exception + string" where
  "primary_semantic fallback has_pymusas_flag token =
     (if has_pymusas_flag then
        (case getattr ''_'' (tok_underscore token) of
           Inl e \<Rightarrow> Inl e
         | Inr ext \<Rightarrow>
             (case pymusas_tags ext of
                Some semantic_tags \<Rightarrow>
                  Inr (if semantic_tags \<noteq> [] then hd semantic_tags else ''Z99'')
              | None \<Rightarrow> fallback token))
      else fallback token)"

text \<open>
  The whole loop body: the dictionary is built from the attributes in the order in which
  the dictionary display reads them.
\<close>

definition annotate_token ::
  "(token \<Rightarrow> py_exception + string) \<Rightarrow> bool \<Rightarrow> token \<Rightarrow> py_exception + annotation" where
  "annotate_token fallback has_pymusas_flag token =
     (case primary_semantic fallback has_pymusas_flag token of Inl e \<Rightarrow> Inl e | Inr sem \<Rightarrow>
     (case getattr ''text'' (tok_text token) of Inl e \<Rightarrow> Inl e | Inr w \<Rightarrow>
     (case getattr ''pos_'' (tok_pos token) of Inl e \<Rightarrow> Inl e | Inr p \<Rightarrow>
     (case getattr ''tag_'' (tok_tag token) of Inl e \<Rightarrow> Inl e | Inr g \<Rightarrow>
     (case getattr ''dep_'' (tok_dep token) of Inl e \<Rightarrow> Inl e | Inr d \<Rightarrow>
     (case getattr ''head'' (tok_head token) of Inl e \<Rightarrow> Inl e | Inr h \<Rightarrow>
     (case getattr ''lemma_'' (tok_lemma token) of Inl e \<Rightarrow> Inl e | Inr l \<Rightarrow>
     (case getattr ''is_stop'' (tok_is_stop token) of Inl e \<Rightarrow> Inl e | Inr s \<Rightarrow>
     (case getattr ''is_punct'' (tok_is_punct token) of Inl e \<Rightarrow> Inl e | Inr u \<Rightarrow>
        Inr \<lparr>word = w, pos = p, tag = g, semantic = sem, dep = d, head = h,
             lemma_text = l, is_stop = s, is_punct = u\<rparr>)))))))))"

text \<open>
  The loop \<^verbatim>\<open>for token in doc\<close>: annotations are appended in the order of the document;
  the first exception leaves the loop.
\<close>

fun annotate_doc ::
  "(token \<Rightarrow> py_exception + string) \<Rightarrow> bool \<Rightarrow> token list \<Rightarrow> py_exception + annotation list"
  where
  "annotate_doc fallback has_pymusas_flag [] = Inr []"
| "annotate_doc fallback has_pymusas_flag (token # doc) =
     (case annotate_token fallback has_pymusas_flag token of
        Inl e \<Rightarrow> Inl e
      | Inr a \<Rightarrow>
          (case annotate_doc fallback has_pymusas_flag doc of
             Inl e \<Rightarrow> Inl e
           | Inr rest \<Rightarrow> Inr (a # rest)))"

text \<open>
  The value of \<^verbatim>\<open>request.get_json()\<close>: the two keys the handler looks at, with
  \<^verbatim>\<open>text\<close> taken to be a JSON string when it is present. The handlers below take the
  outcome of the call: \<open>Inl e\<close> when the call raises \<open>e\<close> (it stands inside the
  \<^verbatim>\<open>try\<close>), \<open>Inr None\<close> when it returns \<^verbatim>\<open>None\<close>, and \<open>Inr (Some d)\<close> otherwise.
\<close>

record request_data =
  data_text :: "string option"
  data_corpus_name :: "string option"

record analysis =
  tokens :: "annotation list"
  num_tokens :: nat
  corpus_name :: string
  has_pymusas :: bool

text \<open>
  The responses of the handler: the analysis with status 200, the error body
  \<^verbatim>\<open>{"error": "No text provided"}\<close> with status 400, the error body \<^verbatim>\<open>{"error": str(e)}\<close>
  with status 500 (kept here as the exception \<open>e\<close> itself), and the empty 204 answer of
  the NOCACHE variant to an \<^verbatim>\<open>OPTIONS\<close> request.
\<close>

datatype response =
  Json200 analysis
  | Json400 string
  | Json500 py_exception
  | Empty204

datatype http_method = POST | OPTIONS

text \<open>
  \<^verbatim>\<open>analyze_text\<close> of \<^verbatim>\<open>app.py\<close>. The pipeline \<open>nlp\<close> and the flag \<^verbatim>\<open>HAS_PYMUSAS\<close> are
  globals of the module; here they are parameters, and the pipeline either returns the
  tokens of the document or raises. The \<^verbatim>\<open>try ... except Exception\<close> around the body
  turns every exception into the 500 response.
\<close>

definition analyze_text ::
  "(string \<Rightarrow> py_exception + token list) \<Rightarrow> bool \<Rightarrow> py_exception + request_data option \<Rightarrow>
   response" where
  "analyze_text nlp has_pymusas_flag get_json =
     (case get_json of
        Inl e \<Rightarrow> Json500 e
      | Inr None \<Rightarrow> Json400 ''No text provided''
      | Inr (Some d) \<Rightarrow>
          (case data_text d of
             None \<Rightarrow> Json400 ''No text provided''
           | Some t \<Rightarrow>
               (let name = (case data_corpus_name d of None \<Rightarrow> ''unnamed'' | Some c \<Rightarrow> c) in
                case nlp t of
                  Inl e \<Rightarrow> Json500 e
                | Inr doc \<Rightarrow>
                    (case annotate_doc get_semantic_fallback has_pymusas_flag doc of
                       Inl e \<Rightarrow> Json500 e
                     | Inr toks \<Rightarrow>
                         Json200 \<lparr>tokens = toks, num_tokens = length toks, corpus_name = name,
                                  has_pymusas = has_pymusas_flag\<rparr>))))"

text \<open>\<^verbatim>\<open>analyze_text\<close> of \<^verbatim>\<open>corbas_backend_NOCACHE.py\<close>.\<close>

definition analyze_text_nocache ::
  "(string \<Rightarrow> py_exception + token list) \<Rightarrow> bool \<Rightarrow> http_method \<Rightarrow>
   py_exception + request_data option \<Rightarrow> response" where
  "analyze_text_nocache nlp has_pymusas_flag method get_json =
     (if method = OPTIONS then Empty204
      else
        (case get_json of
           Inl e \<Rightarrow> Json500 e
         | Inr None \<Rightarrow> Json400 ''No text provided''
         | Inr (Some d) \<Rightarrow>
             (case data_text d of
                None \<Rightarrow> Json400 ''No text provided''
              | Some t \<Rightarrow>
                  (case nlp t of
                     Inl e \<Rightarrow> Json500 e
                   | Inr doc \<Rightarrow>
                       (case annotate_doc get_semantic_fallback_nocache has_pymusas_flag doc of
                          Inl e \<Rightarrow> Json500 e
                        | Inr toks \<Rightarrow>
                            Json200 \<lparr>tokens = toks, num_tokens = length toks,
                                     corpus_name =
                                       (case data_corpus_name d of
                                          None \<Rightarrow> ''unnamed'' | Some c \<Rightarrow> c),
                                     has_pymusas = has_pymusas_flag\<rparr>)))))"

text \<open>
  A token carries the eight attributes that the loop body reads unconditionally: the
  fields of a raw token that the output dictionary is built from.
\<close>

definition has_required_fields :: "token \<Rightarrow> bool" where
  "has_required_fields token =
     (tok_text token \<noteq> None \<and> tok_pos token \<noteq> None \<and> tok_tag token \<noteq> None \<and>
      tok_dep token \<noteq> None \<and> tok_head token \<noteq> None \<and> tok_lemma token \<noteq> None \<and>
      tok_is_stop token \<noteq> None \<and> tok_is_punct token \<noteq> None)"

text \<open>
  A token carries every attribute that the loop body reads: the eight above and, when the
  flag \<^verbatim>\<open>HAS_PYMUSAS\<close> is set, the attribute \<^verbatim>\<open>_\<close>.
\<close>

definition attributes_present :: "bool \<Rightarrow> token \<Rightarrow> bool" where
  "attributes_present has_pymusas_flag token =
     (has_required_fields token \<and> (has_pymusas_flag \<longrightarrow> tok_underscore token \<noteq> None))"

text \<open>
  The token that carries all eight attributes, with the given values, and the attribute
  \<^verbatim>\<open>_\<close>, whose \<^verbatim>\<open>pymusas_tags\<close> extension is \<open>tags\<close>; and the dictionary that the loop
  body builds from it once the semantic code \<open>sem\<close> is known.
\<close>

definition full_token ::
  "string \<Rightarrow> string \<Rightarrow> string \<Rightarrow> string \<Rightarrow> nat \<Rightarrow> string \<Rightarrow> bool \<Rightarrow> bool \<Rightarrow>
   string list option \<Rightarrow> token" where
  "full_token w p g d h l s u tags =
     \<lparr>tok_text = Some w, tok_pos = Some p, tok_tag = Some g, tok_dep = Some d,
      tok_head = Some h, tok_lemma = Some l, tok_is_stop = Some s, tok_is_punct = Some u,
      tok_underscore = Some (Underscore tags)\<rparr>"

definition token_dict ::
  "string \<Rightarrow> string \<Rightarrow> string \<Rightarrow> string \<Rightarrow> nat \<Rightarrow> string \<Rightarrow> bool \<Rightarrow> bool \<Rightarrow>
   string \<Rightarrow> annotation" where
  "token_dict w p g d h l s u sem =
     \<lparr>word = w, pos = p, tag = g, semantic = sem, dep = d, head = h, lemma_text = l,
      is_stop = s, is_punct = u\<rparr>"

section \<open>Evaluation lemmas\<close>

lemmas app_sets =
  emotion_positive_def emotion_negative_def movement_verbs_def speech_verbs_def
  thought_verbs_def positive_adj_def negative_adj_def time_words_def

lemmas nocache_sets =
  emotion_pos_def emotion_neg_def movement_def speech_def thought_def

lemma lower_xyzzy: "lower ''xyzzy'' = ''xyzzy''"
  by code_simp

lemma lower_Happy: "lower ''Happy'' = ''happy''"
  by code_simp

section \<open>The fallback tagger: results\<close>

text \<open>
  C10. For every lemma and every part of speech, the fallback tagger of \<^verbatim>\<open>app.py\<close>
  returns one of seventeen codes, and the code is not the empty string. The function has
  no loop and every branch returns, so on a token that carries \<^verbatim>\<open>pos_\<close> and \<^verbatim>\<open>lemma_\<close>
  it returns a value (\<open>Inr\<close>) and raises nothing.
\<close>

theorem fallback_code_set:
  "semantic_fallback l p \<in>
     {''E1.1+'', ''E1.1-'', ''M1'', ''Q2.2'', ''X2.1'', ''A5.1+'', ''A5.1-'', ''T1'', ''O2'',
      ''Z3'', ''A3+'', ''A5'', ''A13'', ''N1'', ''Z5'', ''Z8'', ''Z99''}
   \<and> semantic_fallback l p \<noteq> ''''
   \<and> get_semantic_fallback (token\<lparr>tok_pos := Some p, tok_lemma := Some l\<rparr>)
       = Inr (semantic_fallback l p)"
  by (simp add: semantic_fallback_def get_semantic_fallback_def getattr_def Let_def)

text \<open>
  C1. When the lower-cased lemma is in none of the vocabulary sets of the file, the
  result is the default of the part of speech: NOUN gives O2, PROPN gives Z3, VERB gives
  A3+, ADJ gives A5, ADV gives A13, NUM gives N1, ADP and DET give Z5, PRON gives Z8, and
  every other part of speech gives Z99. This holds for \<^verbatim>\<open>app.py\<close> (eight sets) and for
  the NOCACHE variant (five sets).
\<close>

theorem fallback_pos_default:
  "(lower l \<notin> emotion_positive \<union> emotion_negative \<union> movement_verbs \<union> speech_verbs \<union>
      thought_verbs \<union> positive_adj \<union> negative_adj \<union> time_words \<longrightarrow>
      semantic_fallback l ''NOUN'' = ''O2'' \<and>
      semantic_fallback l ''PROPN'' = ''Z3'' \<and>
      semantic_fallback l ''VERB'' = ''A3+'' \<and>
      semantic_fallback l ''ADJ'' = ''A5'' \<and>
      semantic_fallback l ''ADV'' = ''A13'' \<and>
      semantic_fallback l ''NUM'' = ''N1'' \<and>
      semantic_fallback l ''ADP'' = ''Z5'' \<and>
      semantic_fallback l ''DET'' = ''Z5'' \<and>
      semantic_fallback l ''PRON'' = ''Z8'' \<and>
      (p \<notin> {''NOUN'', ''PROPN'', ''VERB'', ''ADJ'', ''ADV'', ''NUM'', ''ADP'', ''DET'', ''PRON''} \<longrightarrow>
         semantic_fallback l p = ''Z99''))
   \<and>
   (lower l \<notin> emotion_pos \<union> emotion_neg \<union> movement \<union> speech \<union> thought \<longrightarrow>
      semantic_fallback_nocache l ''NOUN'' = ''O2'' \<and>
      semantic_fallback_nocache l ''PROPN'' = ''Z3'' \<and>
      semantic_fallback_nocache l ''VERB'' = ''A3+'' \<and>
      semantic_fallback_nocache l ''ADJ'' = ''A5'' \<and>
      semantic_fallback_nocache l ''ADV'' = ''A13'' \<and>
      semantic_fallback_nocache l ''NUM'' = ''N1'' \<and>
      semantic_fallback_nocache l ''ADP'' = ''Z5'' \<and>
      semantic_fallback_nocache l ''DET'' = ''Z5'' \<and>
      semantic_fallback_nocache l ''PRON'' = ''Z8'' \<and>
      (p \<notin> {''NOUN'', ''PROPN'', ''VERB'', ''ADJ'', ''ADV'', ''NUM'', ''ADP'', ''DET'', ''PRON''} \<longrightarrow>
         semantic_fallback_nocache l p = ''Z99''))"
proof (intro conjI impI)
  assume "lower l \<notin> emotion_positive \<union> emotion_negative \<union> movement_verbs \<union> speech_verbs \<union>
      thought_verbs \<union> positive_adj \<union> negative_adj \<union> time_words"
  then have none: "\<And>q. semantic_fallback l q =
      (if q = ''NOUN'' then ''O2'' else if q = ''PROPN'' then ''Z3''
       else if q = ''VERB'' then ''A3+'' else if q = ''ADJ'' then ''A5''
       else if q = ''ADV'' then ''A13'' else if q = ''NUM'' then ''N1''
       else if q = ''ADP'' then ''Z5'' else if q = ''DET'' then ''Z5''
       else if q = ''PRON'' then ''Z8'' else ''Z99'')"
    by (simp add: semantic_fallback_def Let_def)
  show "semantic_fallback l ''NOUN'' = ''O2''" by (simp add: none)
  show "semantic_fallback l ''PROPN'' = ''Z3''" by (simp add: none)
  show "semantic_fallback l ''VERB'' = ''A3+''" by (simp add: none)
  show "semantic_fallback l ''ADJ'' = ''A5''" by (simp add: none)
  show "semantic_fallback l ''ADV'' = ''A13''" by (simp add: none)
  show "semantic_fallback l ''NUM'' = ''N1''" by (simp add: none)
  show "semantic_fallback l ''ADP'' = ''Z5''" by (simp add: none)
  show "semantic_fallback l ''DET'' = ''Z5''" by (simp add: none)
  show "semantic_fallback l ''PRON'' = ''Z8''" by (simp add: none)
  assume "p \<notin> {''NOUN'', ''PROPN'', ''VERB'', ''ADJ'', ''ADV'', ''NUM'', ''ADP'', ''DET'', ''PRON''}"
  then show "semantic_fallback l p = ''Z99''" by (simp add: none)
next
  assume "lower l \<notin> emotion_pos \<union> emotion_neg \<union> movement \<union> speech \<union> thought"
  then have none: "\<And>q. semantic_fallback_nocache l q =
      (if q = ''NOUN'' then ''O2'' else if q = ''PROPN'' then ''Z3''
       else if q = ''VERB'' then ''A3+'' else if q = ''ADJ'' then ''A5''
       else if q = ''ADV'' then ''A13'' else if q = ''NUM'' then ''N1''
       else if q = ''ADP'' \<or> q = ''DET'' then ''Z5''
       else if q = ''PRON'' then ''Z8'' else ''Z99'')"
    by (simp add: semantic_fallback_nocache_def Let_def)
  show "semantic_fallback_nocache l ''NOUN'' = ''O2''" by (simp add: none)
  show "semantic_fallback_nocache l ''PROPN'' = ''Z3''" by (simp add: none)
  show "semantic_fallback_nocache l ''VERB'' = ''A3+''" by (simp add: none)
  show "semantic_fallback_nocache l ''ADJ'' = ''A5''" by (simp add: none)
  show "semantic_fallback_nocache l ''ADV'' = ''A13''" by (simp add: none)
  show "semantic_fallback_nocache l ''NUM'' = ''N1''" by (simp add: none)
  show "semantic_fallback_nocache l ''ADP'' = ''Z5''" by (simp add: none)
  show "semantic_fallback_nocache l ''DET'' = ''Z5''" by (simp add: none)
  show "semantic_fallback_nocache l ''PRON'' = ''Z8''" by (simp add: none)
  assume "p \<notin> {''NOUN'', ''PROPN'', ''VERB'', ''ADJ'', ''ADV'', ''NUM'', ''ADP'', ''DET'', ''PRON''}"
  then show "semantic_fallback_nocache l p = ''Z99''" by (simp add: none)
qed

text \<open>
  The lemma \<^verbatim>\<open>xyzzy\<close> is in no vocabulary set, so with NOUN it is tagged O2 and with
  PUNCT it is tagged Z99, in both files.
\<close>

theorem fallback_pos_default_witness:
  "lower ''xyzzy'' \<notin> emotion_positive \<union> emotion_negative \<union> movement_verbs \<union> speech_verbs \<union>
      thought_verbs \<union> positive_adj \<union> negative_adj \<union> time_words
   \<and> lower ''xyzzy'' \<notin> emotion_pos \<union> emotion_neg \<union> movement \<union> speech \<union> thought
   \<and> semantic_fallback ''xyzzy'' ''NOUN'' = ''O2''
   \<and> semantic_fallback ''xyzzy'' ''PUNCT'' = ''Z99''
   \<and> semantic_fallback_nocache ''xyzzy'' ''NOUN'' = ''O2''
   \<and> semantic_fallback_nocache ''xyzzy'' ''PUNCT'' = ''Z99''"
  using fallback_pos_default [of "''xyzzy''" "''PUNCT''"]
  by (simp add: lower_xyzzy app_sets nocache_sets)

text \<open>
  C5. A lemma whose lower-casing is in the positive-emotion set is tagged E1.1+ whatever
  the part of speech, in both files; the test is made on the lower-cased lemma, so the
  case of the letters of the lemma does not matter.
\<close>

theorem fallback_positive_emotion:
  "(lower l \<in> emotion_positive \<longrightarrow> semantic_fallback l p = ''E1.1+'')
   \<and> (lower l \<in> emotion_pos \<longrightarrow> semantic_fallback_nocache l p = ''E1.1+'')"
  by (simp add: semantic_fallback_def semantic_fallback_nocache_def Let_def)

theorem fallback_positive_emotion_witness:
  "lower ''Happy'' \<in> emotion_positive \<and> lower ''Happy'' \<in> emotion_pos
   \<and> semantic_fallback ''Happy'' ''ADJ'' = ''E1.1+''
   \<and> semantic_fallback_nocache ''Happy'' ''ADJ'' = ''E1.1+''"
  using fallback_positive_emotion [of "''Happy''" "''ADJ''"]
  by (simp add: lower_Happy emotion_positive_def emotion_pos_def)

text \<open>
  C8. The two fallback taggers are different functions: on the lemma \<^verbatim>\<open>good\<close> with the
  part of speech ADJ, \<^verbatim>\<open>app.py\<close> answers A5.1+ (its positive-adjective rule) and the
  NOCACHE variant, which has no such rule, answers the default A5. The same happens for
  the negative-adjective rule (\<^verbatim>\<open>bad\<close>) and the temporal rule (\<^verbatim>\<open>today\<close>).
\<close>

theorem fallback_variants_differ:
  "semantic_fallback ''good'' ''ADJ'' = ''A5.1+''
   \<and> semantic_fallback_nocache ''good'' ''ADJ'' = ''A5''
   \<and> semantic_fallback ''bad'' ''ADJ'' = ''A5.1-''
   \<and> semantic_fallback_nocache ''bad'' ''ADJ'' = ''A5''
   \<and> semantic_fallback ''today'' ''NOUN'' = ''T1''
   \<and> semantic_fallback_nocache ''today'' ''NOUN'' = ''O2''
   \<and> semantic_fallback \<noteq> semantic_fallback_nocache
   \<and> get_semantic_fallback \<noteq> get_semantic_fallback_nocache"
proof -
  have lc: "lower ''good'' = ''good''" "lower ''bad'' = ''bad''" "lower ''today'' = ''today''"
    by code_simp+
  have g1: "semantic_fallback ''good'' ''ADJ'' = ''A5.1+''"
    by (simp add: semantic_fallback_def Let_def lc app_sets)
  have g2: "semantic_fallback_nocache ''good'' ''ADJ'' = ''A5''"
    by (simp add: semantic_fallback_nocache_def Let_def lc nocache_sets)
  have b1: "semantic_fallback ''bad'' ''ADJ'' = ''A5.1-''"
    by (simp add: semantic_fallback_def Let_def lc app_sets)
  have b2: "semantic_fallback_nocache ''bad'' ''ADJ'' = ''A5''"
    by (simp add: semantic_fallback_nocache_def Let_def lc nocache_sets)
  have t1: "semantic_fallback ''today'' ''NOUN'' = ''T1''"
    by (simp add: semantic_fallback_def Let_def lc app_sets)
  have t2: "semantic_fallback_nocache ''today'' ''NOUN'' = ''O2''"
    by (simp add: semantic_fallback_nocache_def Let_def lc nocache_sets)
  have f: "semantic_fallback \<noteq> semantic_fallback_nocache"
  proof
    assume "semantic_fallback = semantic_fallback_nocache"
    then have "semantic_fallback ''good'' ''ADJ'' = semantic_fallback_nocache ''good'' ''ADJ''"
      by simp
    then show False by (simp add: g1 g2)
  qed
  define k where "k = \<lparr>tok_text = None, tok_pos = Some ''ADJ'', tok_tag = None,
    tok_dep = None, tok_head = None, tok_lemma = Some ''good'', tok_is_stop = None,
    tok_is_punct = None, tok_underscore = None\<rparr>"
  have g: "get_semantic_fallback \<noteq> get_semantic_fallback_nocache"
  proof
    assume "get_semantic_fallback = get_semantic_fallback_nocache"
    then have "get_semantic_fallback k = get_semantic_fallback_nocache k"
      by simp
    then show False
      by (simp add: k_def get_semantic_fallback_def get_semantic_fallback_nocache_def
          getattr_def g1 g2)
  qed
  show ?thesis
    using g1 g2 b1 b2 t1 t2 f g by simp
qed

section \<open>The vocabulary sets\<close>

lemma app_sets_disjoint:
  "emotion_positive \<inter> emotion_negative = {}"
  "emotion_positive \<inter> movement_verbs = {}"
  "emotion_positive \<inter> speech_verbs = {}"
  "emotion_positive \<inter> thought_verbs = {}"
  "emotion_positive \<inter> negative_adj = {}"
  "emotion_positive \<inter> time_words = {}"
  "emotion_negative \<inter> movement_verbs = {}"
  "emotion_negative \<inter> speech_verbs = {}"
  "emotion_negative \<inter> thought_verbs = {}"
  "emotion_negative \<inter> positive_adj = {}"
  "emotion_negative \<inter> negative_adj = {}"
  "emotion_negative \<inter> time_words = {}"
  "movement_verbs \<inter> speech_verbs = {}"
  "movement_verbs \<inter> thought_verbs = {}"
  "movement_verbs \<inter> positive_adj = {}"
  "movement_verbs \<inter> negative_adj = {}"
  "movement_verbs \<inter> time_words = {}"
  "speech_verbs \<inter> thought_verbs = {}"
  "speech_verbs \<inter> positive_adj = {}"
  "speech_verbs \<inter> negative_adj = {}"
  "speech_verbs \<inter> time_words = {}"
  "thought_verbs \<inter> positive_adj = {}"
  "thought_verbs \<inter> negative_adj = {}"
  "thought_verbs \<inter> time_words = {}"
  "positive_adj \<inter> negative_adj = {}"
  "positive_adj \<inter> time_words = {}"
  "negative_adj \<inter> time_words = {}"
  by (simp_all add: app_sets)

lemma nocache_sets_disjoint:
  "emotion_pos \<inter> emotion_neg = {}"
  "emotion_pos \<inter> movement = {}"
  "emotion_pos \<inter> speech = {}"
  "emotion_pos \<inter> thought = {}"
  "emotion_neg \<inter> movement = {}"
  "emotion_neg \<inter> speech = {}"
  "emotion_neg \<inter> thought = {}"
  "movement \<inter> speech = {}"
  "movement \<inter> thought = {}"
  "speech \<inter> thought = {}"
  by (simp_all add: nocache_sets)

lemma app_first_match:
  "lower l \<in> emotion_positive \<longrightarrow> semantic_fallback l p = ''E1.1+''"
  "lower l \<notin> emotion_positive \<and> lower l \<in> emotion_negative \<longrightarrow>
     semantic_fallback l p = ''E1.1-''"
  "lower l \<notin> emotion_positive \<union> emotion_negative \<and> lower l \<in> movement_verbs \<longrightarrow>
     semantic_fallback l p = ''M1''"
  "lower l \<notin> emotion_positive \<union> emotion_negative \<union> movement_verbs \<and> lower l \<in> speech_verbs \<longrightarrow>
     semantic_fallback l p = ''Q2.2''"
  "lower l \<notin> emotion_positive \<union> emotion_negative \<union> movement_verbs \<union> speech_verbs \<and>
     lower l \<in> thought_verbs \<longrightarrow> semantic_fallback l p = ''X2.1''"
  "lower l \<notin> emotion_positive \<union> emotion_negative \<union> movement_verbs \<union> speech_verbs \<union>
     thought_verbs \<and> lower l \<in> positive_adj \<longrightarrow> semantic_fallback l p = ''A5.1+''"
  "lower l \<notin> emotion_positive \<union> emotion_negative \<union> movement_verbs \<union> speech_verbs \<union>
     thought_verbs \<union> positive_adj \<and> lower l \<in> negative_adj \<longrightarrow>
     semantic_fallback l p = ''A5.1-''"
  "lower l \<notin> emotion_positive \<union> emotion_negative \<union> movement_verbs \<union> speech_verbs \<union>
     thought_verbs \<union> positive_adj \<union> negative_adj \<and> lower l \<in> time_words \<longrightarrow>
     semantic_fallback l p = ''T1''"
  by (simp_all add: semantic_fallback_def Let_def)

lemma nocache_first_match:
  "lower l \<in> emotion_pos \<longrightarrow> semantic_fallback_nocache l p = ''E1.1+''"
  "lower l \<notin> emotion_pos \<and> lower l \<in> emotion_neg \<longrightarrow>
     semantic_fallback_nocache l p = ''E1.1-''"
  "lower l \<notin> emotion_pos \<union> emotion_neg \<and> lower l \<in> movement \<longrightarrow>
     semantic_fallback_nocache l p = ''M1''"
  "lower l \<notin> emotion_pos \<union> emotion_neg \<union> movement \<and> lower l \<in> speech \<longrightarrow>
     semantic_fallback_nocache l p = ''Q2.2''"
  "lower l \<notin> emotion_pos \<union> emotion_neg \<union> movement \<union> speech \<and> lower l \<in> thought \<longrightarrow>
     semantic_fallback_nocache l p = ''X2.1''"
  by (simp_all add: semantic_fallback_nocache_def Let_def)

text \<open>
  C3, as the claim states it, fails: the eight vocabulary sets of \<^verbatim>\<open>app.py\<close> are not
  pairwise disjoint. The word \<^verbatim>\<open>wonderful\<close> is listed in the positive-emotion set and in
  the positive-adjective set.
\<close>

theorem vocabulary_overlap:
  "''wonderful'' \<in> emotion_positive \<and> ''wonderful'' \<in> positive_adj
   \<and> emotion_positive \<inter> positive_adj \<noteq> {}"
  by (auto simp add: emotion_positive_def positive_adj_def)

text \<open>
  C3, amended. Every pair of vocabulary sets of \<^verbatim>\<open>app.py\<close> other than the pair of the
  positive-emotion set and the positive-adjective set is disjoint, and the five sets of
  the NOCACHE variant are pairwise disjoint. In both files a lemma is tagged by the first
  set, in the order of the tests, that contains its lower-casing: a lemma in two sets gets
  the code of the earlier one.
\<close>

theorem vocabulary_first_match:
  "(emotion_positive \<inter> emotion_negative = {} \<and> emotion_positive \<inter> movement_verbs = {} \<and>
    emotion_positive \<inter> speech_verbs = {} \<and> emotion_positive \<inter> thought_verbs = {} \<and>
    emotion_positive \<inter> negative_adj = {} \<and> emotion_positive \<inter> time_words = {} \<and>
    emotion_negative \<inter> movement_verbs = {} \<and> emotion_negative \<inter> speech_verbs = {} \<and>
    emotion_negative \<inter> thought_verbs = {} \<and> emotion_negative \<inter> positive_adj = {} \<and>
    emotion_negative \<inter> negative_adj = {} \<and> emotion_negative \<inter> time_words = {} \<and>
    movement_verbs \<inter> speech_verbs = {} \<and> movement_verbs \<inter> thought_verbs = {} \<and>
    movement_verbs \<inter> positive_adj = {} \<and> movement_verbs \<inter> negative_adj = {} \<and>
    movement_verbs \<inter> time_words = {} \<and> speech_verbs \<inter> thought_verbs = {} \<and>
    speech_verbs \<inter> positive_adj = {} \<and> speech_verbs \<inter> negative_adj = {} \<and>
    speech_verbs \<inter> time_words = {} \<and> thought_verbs \<inter> positive_adj = {} \<and>
    thought_verbs \<inter> negative_adj = {} \<and> thought_verbs \<inter> time_words = {} \<and>
    positive_adj \<inter> negative_adj = {} \<and> positive_adj \<inter> time_words = {} \<and>
    negative_adj \<inter> time_words = {})
   \<and>
   (emotion_pos \<inter> emotion_neg = {} \<and> emotion_pos \<inter> movement = {} \<and>
    emotion_pos \<inter> speech = {} \<and> emotion_pos \<inter> thought = {} \<and>
    emotion_neg \<inter> movement = {} \<and> emotion_neg \<inter> speech = {} \<and>
    emotion_neg \<inter> thought = {} \<and> movement \<inter> speech = {} \<and>
    movement \<inter> thought = {} \<and> speech \<inter> thought = {})
   \<and>
   ((lower l \<in> emotion_positive \<longrightarrow> semantic_fallback l p = ''E1.1+'') \<and>
    (lower l \<notin> emotion_positive \<and> lower l \<in> emotion_negative \<longrightarrow>
       semantic_fallback l p = ''E1.1-'') \<and>
    (lower l \<notin> emotion_positive \<union> emotion_negative \<and> lower l \<in> movement_verbs \<longrightarrow>
       semantic_fallback l p = ''M1'') \<and>
    (lower l \<notin> emotion_positive \<union> emotion_negative \<union> movement_verbs \<and>
       lower l \<in> speech_verbs \<longrightarrow> semantic_fallback l p = ''Q2.2'') \<and>
    (lower l \<notin> emotion_positive \<union> emotion_negative \<union> movement_verbs \<union> speech_verbs \<and>
       lower l \<in> thought_verbs \<longrightarrow> semantic_fallback l p = ''X2.1'') \<and>
    (lower l \<notin> emotion_positive \<union> emotion_negative \<union> movement_verbs \<union> speech_verbs \<union>
       thought_verbs \<and> lower l \<in> positive_adj \<longrightarrow> semantic_fallback l p = ''A5.1+'') \<and>
    (lower l \<notin> emotion_positive \<union> emotion_negative \<union> movement_verbs \<union> speech_verbs \<union>
       thought_verbs \<union> positive_adj \<and> lower l \<in> negative_adj \<longrightarrow>
       semantic_fallback l p = ''A5.1-'') \<and>
    (lower l \<notin> emotion_positive \<union> emotion_negative \<union> movement_verbs \<union> speech_verbs \<union>
       thought_verbs \<union> positive_adj \<union> negative_adj \<and> lower l \<in> time_words \<longrightarrow>
       semantic_fallback l p = ''T1''))
   \<and>
   ((lower l \<in> emotion_pos \<longrightarrow> semantic_fallback_nocache l p = ''E1.1+'') \<and>
    (lower l \<notin> emotion_pos \<and> lower l \<in> emotion_neg \<longrightarrow>
       semantic_fallback_nocache l p = ''E1.1-'') \<and>
    (lower l \<notin> emotion_pos \<union> emotion_neg \<and> lower l \<in> movement \<longrightarrow>
       semantic_fallback_nocache l p = ''M1'') \<and>
    (lower l \<notin> emotion_pos \<union> emotion_neg \<union> movement \<and> lower l \<in> speech \<longrightarrow>
       semantic_fallback_nocache l p = ''Q2.2'') \<and>
    (lower l \<notin> emotion_pos \<union> emotion_neg \<union> movement \<union> speech \<and> lower l \<in> thought \<longrightarrow>
       semantic_fallback_nocache l p = ''X2.1''))"
  by (intro conjI;
      rule app_sets_disjoint nocache_sets_disjoint app_first_match nocache_first_match)

text \<open>
  The lemma \<^verbatim>\<open>wonderful\<close> is in the first and in the sixth set of \<^verbatim>\<open>app.py\<close>; it gets the
  code of the first. The lemma \<^verbatim>\<open>Good\<close> is in the sixth set only and gets its code.
\<close>

theorem vocabulary_first_match_witness:
  "lower ''wonderful'' \<in> emotion_positive \<and> lower ''wonderful'' \<in> positive_adj
   \<and> semantic_fallback ''wonderful'' ''ADJ'' = ''E1.1+''
   \<and> semantic_fallback_nocache ''wonderful'' ''ADJ'' = ''E1.1+''
   \<and> lower ''Good'' \<notin> emotion_positive \<union> emotion_negative \<union> movement_verbs \<union> speech_verbs \<union>
       thought_verbs
   \<and> lower ''Good'' \<in> positive_adj
   \<and> semantic_fallback ''Good'' ''ADJ'' = ''A5.1+''"
proof -
  have lc: "lower ''wonderful'' = ''wonderful''" "lower ''Good'' = ''good''"
    by code_simp+
  show ?thesis
    using vocabulary_first_match [of "''wonderful''" "''ADJ''"]
      vocabulary_first_match [of "''Good''" "''ADJ''"]
    by (simp add: lc app_sets nocache_sets)
qed

section \<open>The loop body of the analyze handler\<close>

lemma full_token_sel:
  "tok_text (full_token w p g d h l s u tags) = Some w"
  "tok_pos (full_token w p g d h l s u tags) = Some p"
  "tok_tag (full_token w p g d h l s u tags) = Some g"
  "tok_dep (full_token w p g d h l s u tags) = Some d"
  "tok_head (full_token w p g d h l s u tags) = Some h"
  "tok_lemma (full_token w p g d h l s u tags) = Some l"
  "tok_is_stop (full_token w p g d h l s u tags) = Some s"
  "tok_is_punct (full_token w p g d h l s u tags) = Some u"
  "tok_underscore (full_token w p g d h l s u tags) = Some (Underscore tags)"
  by (simp_all add: full_token_def)

lemma has_required_fields_full_token:
  "has_required_fields (full_token w p g d h l s u tags)"
  by (simp add: has_required_fields_def full_token_sel)

lemma get_semantic_fallback_full:
  "get_semantic_fallback (full_token w p g d h l s u tags) = Inr (semantic_fallback l p)"
  "get_semantic_fallback_nocache (full_token w p g d h l s u tags)
     = Inr (semantic_fallback_nocache l p)"
  by (simp_all add: get_semantic_fallback_def get_semantic_fallback_nocache_def getattr_def
      full_token_sel)

lemma annotate_full_token:
  "primary_semantic fallback flag (full_token w p g d h l s u tags) = Inr sem \<Longrightarrow>
   annotate_token fallback flag (full_token w p g d h l s u tags)
     = Inr (token_dict w p g d h l s u sem)"
  by (simp add: annotate_token_def getattr_def full_token_sel token_dict_def)

text \<open>
  C2. When the external tagger is in use and the tag list of the token is not empty,
  the semantic code is the first tag of the list. The fallback function does not take
  part: the result is the same for every function put in its place, also for one that
  raises. With the tags M1, Z5 the code is M1.
\<close>

theorem external_tag_first:
  "(tok_underscore token = Some (Underscore (Some tags)) \<and> tags \<noteq> [] \<longrightarrow>
      primary_semantic fallback True token = Inr (hd tags))
   \<and> (tags \<noteq> [] \<longrightarrow>
      annotate_token fallback True (full_token w p g d h l s u (Some tags))
        = Inr (token_dict w p g d h l s u (hd tags)))"
proof (intro conjI impI)
  assume "tok_underscore token = Some (Underscore (Some tags)) \<and> tags \<noteq> []"
  then show "primary_semantic fallback True token = Inr (hd tags)"
    by (simp add: primary_semantic_def getattr_def)
next
  assume "tags \<noteq> []"
  then have "primary_semantic fallback True (full_token w p g d h l s u (Some tags))
      = Inr (hd tags)"
    by (simp add: primary_semantic_def getattr_def full_token_sel)
  then show "annotate_token fallback True (full_token w p g d h l s u (Some tags))
      = Inr (token_dict w p g d h l s u (hd tags))"
    by (rule annotate_full_token)
qed

theorem external_tag_first_witness:
  "tok_underscore (full_token ''went'' ''VERB'' ''VBD'' ''ROOT'' 1 ''go'' False False
       (Some [''M1'', ''Z5''])) = Some (Underscore (Some [''M1'', ''Z5'']))
   \<and> [''M1'', ''Z5''] \<noteq> []
   \<and> primary_semantic (\<lambda>k. Inl (AttributeError ''unused'')) True
       (full_token ''went'' ''VERB'' ''VBD'' ''ROOT'' 1 ''go'' False False
          (Some [''M1'', ''Z5''])) = Inr ''M1''
   \<and> semantic (token_dict ''went'' ''VERB'' ''VBD'' ''ROOT'' 1 ''go'' False False ''M1'') = ''M1''
   \<and> annotate_token (\<lambda>k. Inl (AttributeError ''unused'')) True
       (full_token ''went'' ''VERB'' ''VBD'' ''ROOT'' 1 ''go'' False False
          (Some [''M1'', ''Z5'']))
     = Inr (token_dict ''went'' ''VERB'' ''VBD'' ''ROOT'' 1 ''go'' False False ''M1'')"
  using external_tag_first [of
      "full_token ''went'' ''VERB'' ''VBD'' ''ROOT'' 1 ''go'' False False (Some [''M1'', ''Z5''])"
      "[''M1'', ''Z5'']" "\<lambda>k. Inl (AttributeError ''unused'')"
      "''went''" "''VERB''" "''VBD''" "''ROOT''" 1 "''go''" False False]
  by (simp add: full_token_sel token_dict_def)

text \<open>
  C4. When the external tagger is not in use, the semantic code is the result of the
  fallback tagger on the lemma and the part of speech of the token, in both files. The
  attribute \<^verbatim>\<open>_\<close> and its \<^verbatim>\<open>pymusas_tags\<close> extension are not read: the annotation is
  the same whatever tag list the token carries, or whether it carries one at all.
\<close>

theorem fallback_when_tagger_off:
  "annotate_token get_semantic_fallback False (full_token w p g d h l s u tags)
     = Inr (token_dict w p g d h l s u (semantic_fallback l p))
   \<and> annotate_token get_semantic_fallback_nocache False (full_token w p g d h l s u tags)
     = Inr (token_dict w p g d h l s u (semantic_fallback_nocache l p))
   \<and> annotate_token get_semantic_fallback False (token\<lparr>tok_underscore := ext\<rparr>)
     = annotate_token get_semantic_fallback False (token\<lparr>tok_underscore := ext'\<rparr>)
   \<and> annotate_token get_semantic_fallback_nocache False (token\<lparr>tok_underscore := ext\<rparr>)
     = annotate_token get_semantic_fallback_nocache False (token\<lparr>tok_underscore := ext'\<rparr>)"
proof (intro conjI)
  show "annotate_token get_semantic_fallback False (full_token w p g d h l s u tags)
     = Inr (token_dict w p g d h l s u (semantic_fallback l p))"
    by (rule annotate_full_token) (simp add: primary_semantic_def get_semantic_fallback_full)
  show "annotate_token get_semantic_fallback_nocache False (full_token w p g d h l s u tags)
     = Inr (token_dict w p g d h l s u (semantic_fallback_nocache l p))"
    by (rule annotate_full_token) (simp add: primary_semantic_def get_semantic_fallback_full)
  show "annotate_token get_semantic_fallback False (token\<lparr>tok_underscore := ext\<rparr>)
     = annotate_token get_semantic_fallback False (token\<lparr>tok_underscore := ext'\<rparr>)"
    by (simp add: annotate_token_def primary_semantic_def get_semantic_fallback_def
        cong: sum.case_cong)
  show "annotate_token get_semantic_fallback_nocache False (token\<lparr>tok_underscore := ext\<rparr>)
     = annotate_token get_semantic_fallback_nocache False (token\<lparr>tok_underscore := ext'\<rparr>)"
    by (simp add: annotate_token_def primary_semantic_def get_semantic_fallback_nocache_def
        cong: sum.case_cong)
qed

section \<open>Which path gives the semantic code\<close>

lemma semantic_fallback_nonempty:
  "semantic_fallback l p \<noteq> ''''" "semantic_fallback_nocache l p \<noteq> ''''"
  by (simp_all add: semantic_fallback_def semantic_fallback_nocache_def Let_def)

lemma semantic_fallback_no_rule:
  "lower l \<notin> emotion_positive \<union> emotion_negative \<union> movement_verbs \<union> speech_verbs \<union>
      thought_verbs \<union> positive_adj \<union> negative_adj \<union> time_words \<Longrightarrow>
   semantic_fallback l p =
     (if p = ''NOUN'' then ''O2'' else if p = ''PROPN'' then ''Z3''
      else if p = ''VERB'' then ''A3+'' else if p = ''ADJ'' then ''A5''
      else if p = ''ADV'' then ''A13'' else if p = ''NUM'' then ''N1''
      else if p = ''ADP'' \<or> p = ''DET'' then ''Z5''
      else if p = ''PRON'' then ''Z8'' else ''Z99'')"
  "lower l \<notin> emotion_pos \<union> emotion_neg \<union> movement \<union> speech \<union> thought \<Longrightarrow>
   semantic_fallback_nocache l p =
     (if p = ''NOUN'' then ''O2'' else if p = ''PROPN'' then ''Z3''
      else if p = ''VERB'' then ''A3+'' else if p = ''ADJ'' then ''A5''
      else if p = ''ADV'' then ''A13'' else if p = ''NUM'' then ''N1''
      else if p = ''ADP'' \<or> p = ''DET'' then ''Z5''
      else if p = ''PRON'' then ''Z8'' else ''Z99'')"
  by (simp_all add: semantic_fallback_def semantic_fallback_nocache_def Let_def)

lemma pos_default_sentinel:
  "((if p = ''NOUN'' then ''O2'' else if p = ''PROPN'' then ''Z3''
      else if p = ''VERB'' then ''A3+'' else if p = ''ADJ'' then ''A5''
      else if p = ''ADV'' then ''A13'' else if p = ''NUM'' then ''N1''
      else if p = ''ADP'' \<or> p = ''DET'' then ''Z5''
      else if p = ''PRON'' then ''Z8'' else ''Z99'') = ''Z99'')
   = (p \<notin> {''NOUN'', ''PROPN'', ''VERB'', ''ADJ'', ''ADV'', ''NUM'', ''ADP'', ''DET'', ''PRON''})"
  by simp

lemma primary_semantic_full:
  "primary_semantic fallback flag (full_token w p g d h l s u tags) =
     (if flag then
        (case tags of None \<Rightarrow> fallback (full_token w p g d h l s u tags)
         | Some [] \<Rightarrow> Inr ''Z99''
         | Some (t # ts) \<Rightarrow> Inr t)
      else fallback (full_token w p g d h l s u tags))"
proof (cases flag)
  case False
  then show ?thesis
    by (simp add: primary_semantic_def)
next
  case True
  show ?thesis
  proof (cases tags)
    case None
    with True show ?thesis
      by (simp add: primary_semantic_def getattr_def full_token_sel)
  next
    case (Some ts)
    with True show ?thesis
      by (cases ts) (simp_all add: primary_semantic_def getattr_def full_token_sel)
  qed
qed

lemma primary_semantic_full_code:
  "primary_semantic get_semantic_fallback flag (full_token w p g d h l s u tags) =
     Inr (if flag then
            (case tags of None \<Rightarrow> semantic_fallback l p | Some [] \<Rightarrow> ''Z99''
             | Some (t # ts) \<Rightarrow> t)
          else semantic_fallback l p)"
  "primary_semantic get_semantic_fallback_nocache flag (full_token w p g d h l s u tags) =
     Inr (if flag then
            (case tags of None \<Rightarrow> semantic_fallback_nocache l p | Some [] \<Rightarrow> ''Z99''
             | Some (t # ts) \<Rightarrow> t)
          else semantic_fallback_nocache l p)"
  by (simp_all add: primary_semantic_full get_semantic_fallback_full
      split: option.split list.split)

lemma chosen_code_empty:
  assumes "c \<noteq> ''''"
  shows "((if flag then
            (case tags of None \<Rightarrow> c | Some [] \<Rightarrow> ''Z99'' | Some (t # ts) \<Rightarrow> t)
          else c) = '''')
         = (flag \<and> (\<exists>ts. tags = Some ('''' # ts)))"
proof (cases flag)
  case False
  with assms show ?thesis by simp
next
  case True
  show ?thesis
  proof (cases tags)
    case None
    with True assms show ?thesis by simp
  next
    case (Some ts)
    with True show ?thesis by (cases ts) simp_all
  qed
qed

lemma chosen_code_fallback:
  "flag \<longrightarrow> tags = None \<Longrightarrow>
   (if flag then
      (case tags of None \<Rightarrow> c | Some [] \<Rightarrow> ''Z99'' | Some (t # ts) \<Rightarrow> t)
    else c) = (c :: string)"
  by (cases flag) simp_all

text \<open>
  C6, amended. For a token that carries all attributes the loop body returns an annotation
  in both files, and its semantic code is as follows. With the tagger in use and a
  non-empty tag list it is the first tag of the list; with the tagger in use and the list
  present and empty it is Z99; when the fallback tagger runs (the tagger is not in use,
  or the token has no tag list) it is the result of the fallback tagger, and if moreover
  no lexical rule matches, it is the default of the part of speech (O2 for NOUN, Z3 for
  PROPN, A3+ for VERB, A5 for ADJ, A13 for ADV, N1 for NUM, Z5 for ADP and DET, Z8 for
  PRON, Z99 otherwise), hence Z99 exactly when the part of speech is none of the nine
  listed ones. The code is the empty string exactly when the tagger is in use and the
  first tag of the list is itself the empty string; on every other path it is not empty.
\<close>

theorem semantic_empty_only_from_tagger:
  "(\<exists>sem. annotate_token get_semantic_fallback flag (full_token w p g d h l s u tags)
             = Inr (token_dict w p g d h l s u sem)
      \<and> (flag \<and> tags = Some (t # ts) \<longrightarrow> sem = t)
      \<and> (flag \<and> tags = Some [] \<longrightarrow> sem = ''Z99'')
      \<and> ((flag \<longrightarrow> tags = None) \<longrightarrow> sem = semantic_fallback l p)
      \<and> ((flag \<longrightarrow> tags = None) \<and>
          lower l \<notin> emotion_positive \<union> emotion_negative \<union> movement_verbs \<union> speech_verbs \<union>
            thought_verbs \<union> positive_adj \<union> negative_adj \<union> time_words \<longrightarrow>
          sem = (if p = ''NOUN'' then ''O2'' else if p = ''PROPN'' then ''Z3''
                 else if p = ''VERB'' then ''A3+'' else if p = ''ADJ'' then ''A5''
                 else if p = ''ADV'' then ''A13'' else if p = ''NUM'' then ''N1''
                 else if p = ''ADP'' \<or> p = ''DET'' then ''Z5''
                 else if p = ''PRON'' then ''Z8'' else ''Z99'') \<and>
          (sem = ''Z99'' \<longleftrightarrow>
             p \<notin> {''NOUN'', ''PROPN'', ''VERB'', ''ADJ'', ''ADV'', ''NUM'', ''ADP'', ''DET'',
                  ''PRON''}))
      \<and> (sem = '''' \<longleftrightarrow> flag \<and> (\<exists>ts'. tags = Some ('''' # ts'))))
   \<and>
   (\<exists>sem. annotate_token get_semantic_fallback_nocache flag (full_token w p g d h l s u tags)
             = Inr (token_dict w p g d h l s u sem)
      \<and> (flag \<and> tags = Some (t # ts) \<longrightarrow> sem = t)
      \<and> (flag \<and> tags = Some [] \<longrightarrow> sem = ''Z99'')
      \<and> ((flag \<longrightarrow> tags = None) \<longrightarrow> sem = semantic_fallback_nocache l p)
      \<and> ((flag \<longrightarrow> tags = None) \<and>
          lower l \<notin> emotion_pos \<union> emotion_neg \<union> movement \<union> speech \<union> thought \<longrightarrow>
          sem = (if p = ''NOUN'' then ''O2'' else if p = ''PROPN'' then ''Z3''
                 else if p = ''VERB'' then ''A3+'' else if p = ''ADJ'' then ''A5''
                 else if p = ''ADV'' then ''A13'' else if p = ''NUM'' then ''N1''
                 else if p = ''ADP'' \<or> p = ''DET'' then ''Z5''
                 else if p = ''PRON'' then ''Z8'' else ''Z99'') \<and>
          (sem = ''Z99'' \<longleftrightarrow>
             p \<notin> {''NOUN'', ''PROPN'', ''VERB'', ''ADJ'', ''ADV'', ''NUM'', ''ADP'', ''DET'',
                  ''PRON''}))
      \<and> (sem = '''' \<longleftrightarrow> flag \<and> (\<exists>ts'. tags = Some ('''' # ts'))))"
proof (rule conjI)
  define sem where "sem =
    (if flag then
       (case tags of None \<Rightarrow> semantic_fallback l p | Some [] \<Rightarrow> ''Z99'' | Some (t # ts) \<Rightarrow> t)
     else semantic_fallback l p)"
  have a: "annotate_token get_semantic_fallback flag (full_token w p g d h l s u tags)
             = Inr (token_dict w p g d h l s u sem)"
    unfolding sem_def by (rule annotate_full_token) (rule primary_semantic_full_code)
  have x: "flag \<and> tags = Some (t # ts) \<longrightarrow> sem = t"
    by (simp add: sem_def)
  have z: "flag \<and> tags = Some [] \<longrightarrow> sem = ''Z99''"
    by (simp add: sem_def)
  have f: "(flag \<longrightarrow> tags = None) \<longrightarrow> sem = semantic_fallback l p"
    unfolding sem_def by (rule impI) (rule chosen_code_fallback)
  have n: "(flag \<longrightarrow> tags = None) \<and>
          lower l \<notin> emotion_positive \<union> emotion_negative \<union> movement_verbs \<union> speech_verbs \<union>
            thought_verbs \<union> positive_adj \<union> negative_adj \<union> time_words \<longrightarrow>
          sem = (if p = ''NOUN'' then ''O2'' else if p = ''PROPN'' then ''Z3''
                 else if p = ''VERB'' then ''A3+'' else if p = ''ADJ'' then ''A5''
                 else if p = ''ADV'' then ''A13'' else if p = ''NUM'' then ''N1''
                 else if p = ''ADP'' \<or> p = ''DET'' then ''Z5''
                 else if p = ''PRON'' then ''Z8'' else ''Z99'') \<and>
          (sem = ''Z99'' \<longleftrightarrow>
             p \<notin> {''NOUN'', ''PROPN'', ''VERB'', ''ADJ'', ''ADV'', ''NUM'', ''ADP'', ''DET'',
                  ''PRON''})"
  proof (intro impI, elim conjE)
    assume "flag \<longrightarrow> tags = None"
    with f have s: "sem = semantic_fallback l p" by (rule mp)
    assume "lower l \<notin> emotion_positive \<union> emotion_negative \<union> movement_verbs \<union>
            speech_verbs \<union> thought_verbs \<union> positive_adj \<union> negative_adj \<union> time_words"
    then have d: "semantic_fallback l p =
                (if p = ''NOUN'' then ''O2'' else if p = ''PROPN'' then ''Z3''
                 else if p = ''VERB'' then ''A3+'' else if p = ''ADJ'' then ''A5''
                 else if p = ''ADV'' then ''A13'' else if p = ''NUM'' then ''N1''
                 else if p = ''ADP'' \<or> p = ''DET'' then ''Z5''
                 else if p = ''PRON'' then ''Z8'' else ''Z99'')"
      by (rule semantic_fallback_no_rule)
    show "sem = (if p = ''NOUN'' then ''O2'' else if p = ''PROPN'' then ''Z3''
                 else if p = ''VERB'' then ''A3+'' else if p = ''ADJ'' then ''A5''
                 else if p = ''ADV'' then ''A13'' else if p = ''NUM'' then ''N1''
                 else if p = ''ADP'' \<or> p = ''DET'' then ''Z5''
                 else if p = ''PRON'' then ''Z8'' else ''Z99'') \<and>
          (sem = ''Z99'' \<longleftrightarrow>
             p \<notin> {''NOUN'', ''PROPN'', ''VERB'', ''ADJ'', ''ADV'', ''NUM'', ''ADP'', ''DET'',
                  ''PRON''})"
      unfolding s d pos_default_sentinel by simp
  qed
  have e: "sem = '''' \<longleftrightarrow> flag \<and> (\<exists>ts'. tags = Some ('''' # ts'))"
    unfolding sem_def by (rule chosen_code_empty) (rule semantic_fallback_nonempty)
  show "\<exists>sem. annotate_token get_semantic_fallback flag (full_token w p g d h l s u tags)
             = Inr (token_dict w p g d h l s u sem)
      \<and> (flag \<and> tags = Some (t # ts) \<longrightarrow> sem = t)
      \<and> (flag \<and> tags = Some [] \<longrightarrow> sem = ''Z99'')
      \<and> ((flag \<longrightarrow> tags = None) \<longrightarrow> sem = semantic_fallback l p)
      \<and> ((flag \<longrightarrow> tags = None) \<and>
          lower l \<notin> emotion_positive \<union> emotion_negative \<union> movement_verbs \<union> speech_verbs \<union>
            thought_verbs \<union> positive_adj \<union> negative_adj \<union> time_words \<longrightarrow>
          sem = (if p = ''NOUN'' then ''O2'' else if p = ''PROPN'' then ''Z3''
                 else if p = ''VERB'' then ''A3+'' else if p = ''ADJ'' then ''A5''
                 else if p = ''ADV'' then ''A13'' else if p = ''NUM'' then ''N1''
                 else if p = ''ADP'' \<or> p = ''DET'' then ''Z5''
                 else if p = ''PRON'' then ''Z8'' else ''Z99'') \<and>
          (sem = ''Z99'' \<longleftrightarrow>
             p \<notin> {''NOUN'', ''PROPN'', ''VERB'', ''ADJ'', ''ADV'', ''NUM'', ''ADP'', ''DET'',
                  ''PRON''}))
      \<and> (sem = '''' \<longleftrightarrow> flag \<and> (\<exists>ts'. tags = Some ('''' # ts')))"
    by (rule exI [of _ sem]) (intro conjI a x z f n e)
next
  define sem where "sem =
    (if flag then
       (case tags of None \<Rightarrow> semantic_fallback_nocache l p | Some [] \<Rightarrow> ''Z99''
        | Some (t # ts) \<Rightarrow> t)
     else semantic_fallback_nocache l p)"
  have a: "annotate_token get_semantic_fallback_nocache flag (full_token w p g d h l s u tags)
             = Inr (token_dict w p g d h l s u sem)"
    unfolding sem_def by (rule annotate_full_token) (rule primary_semantic_full_code)
  have x: "flag \<and> tags = Some (t # ts) \<longrightarrow> sem = t"
    by (simp add: sem_def)
  have z: "flag \<and> tags = Some [] \<longrightarrow> sem = ''Z99''"
    by (simp add: sem_def)
  have f: "(flag \<longrightarrow> tags = None) \<longrightarrow> sem = semantic_fallback_nocache l p"
    unfolding sem_def by (rule impI) (rule chosen_code_fallback)
  have n: "(flag \<longrightarrow> tags = None) \<and>
          lower l \<notin> emotion_pos \<union> emotion_neg \<union> movement \<union> speech \<union> thought \<longrightarrow>
          sem = (if p = ''NOUN'' then ''O2'' else if p = ''PROPN'' then ''Z3''
                 else if p = ''VERB'' then ''A3+'' else if p = ''ADJ'' then ''A5''
                 else if p = ''ADV'' then ''A13'' else if p = ''NUM'' then ''N1''
                 else if p = ''ADP'' \<or> p = ''DET'' then ''Z5''
                 else if p = ''PRON'' then ''Z8'' else ''Z99'') \<and>
          (sem = ''Z99'' \<longleftrightarrow>
             p \<notin> {''NOUN'', ''PROPN'', ''VERB'', ''ADJ'', ''ADV'', ''NUM'', ''ADP'', ''DET'',
                  ''PRON''})"
  proof (intro impI, elim conjE)
    assume "flag \<longrightarrow> tags = None"
    with f have s: "sem = semantic_fallback_nocache l p" by (rule mp)
    assume "lower l \<notin> emotion_pos \<union> emotion_neg \<union> movement \<union> speech \<union> thought"
    then have d: "semantic_fallback_nocache l p =
                (if p = ''NOUN'' then ''O2'' else if p = ''PROPN'' then ''Z3''
                 else if p = ''VERB'' then ''A3+'' else if p = ''ADJ'' then ''A5''
                 else if p = ''ADV'' then ''A13'' else if p = ''NUM'' then ''N1''
                 else if p = ''ADP'' \<or> p = ''DET'' then ''Z5''
                 else if p = ''PRON'' then ''Z8'' else ''Z99'')"
      by (rule semantic_fallback_no_rule)
    show "sem = (if p = ''NOUN'' then ''O2'' else if p = ''PROPN'' then ''Z3''
                 else if p = ''VERB'' then ''A3+'' else if p = ''ADJ'' then ''A5''
                 else if p = ''ADV'' then ''A13'' else if p = ''NUM'' then ''N1''
                 else if p = ''ADP'' \<or> p = ''DET'' then ''Z5''
                 else if p = ''PRON'' then ''Z8'' else ''Z99'') \<and>
          (sem = ''Z99'' \<longleftrightarrow>
             p \<notin> {''NOUN'', ''PROPN'', ''VERB'', ''ADJ'', ''ADV'', ''NUM'', ''ADP'', ''DET'',
                  ''PRON''})"
      unfolding s d pos_default_sentinel by simp
  qed
  have e: "sem = '''' \<longleftrightarrow> flag \<and> (\<exists>ts'. tags = Some ('''' # ts'))"
    unfolding sem_def by (rule chosen_code_empty) (rule semantic_fallback_nonempty)
  show "\<exists>sem. annotate_token get_semantic_fallback_nocache flag (full_token w p g d h l s u tags)
             = Inr (token_dict w p g d h l s u sem)
      \<and> (flag \<and> tags = Some (t # ts) \<longrightarrow> sem = t)
      \<and> (flag \<and> tags = Some [] \<longrightarrow> sem = ''Z99'')
      \<and> ((flag \<longrightarrow> tags = None) \<longrightarrow> sem = semantic_fallback_nocache l p)
      \<and> ((flag \<longrightarrow> tags = None) \<and>
          lower l \<notin> emotion_pos \<union> emotion_neg \<union> movement \<union> speech \<union> thought \<longrightarrow>
          sem = (if p = ''NOUN'' then ''O2'' else if p = ''PROPN'' then ''Z3''
                 else if p = ''VERB'' then ''A3+'' else if p = ''ADJ'' then ''A5''
                 else if p = ''ADV'' then ''A13'' else if p = ''NUM'' then ''N1''
                 else if p = ''ADP'' \<or> p = ''DET'' then ''Z5''
                 else if p = ''PRON'' then ''Z8'' else ''Z99'') \<and>
          (sem = ''Z99'' \<longleftrightarrow>
             p \<notin> {''NOUN'', ''PROPN'', ''VERB'', ''ADJ'', ''ADV'', ''NUM'', ''ADP'', ''DET'',
                  ''PRON''}))
      \<and> (sem = '''' \<longleftrightarrow> flag \<and> (\<exists>ts'. tags = Some ('''' # ts')))"
    by (rule exI [of _ sem]) (intro conjI a x z f n e)
qed

lemma lower_comma: "lower '','' = '',''"
  by code_simp

lemma fallback_examples:
  "semantic_fallback ''xyzzy'' ''NOUN'' = ''O2''"
  "semantic_fallback '','' ''PUNCT'' = ''Z99''"
  "semantic_fallback_nocache '','' ''PUNCT'' = ''Z99''"
  by (simp_all add: semantic_fallback_def semantic_fallback_nocache_def Let_def lower_xyzzy
      lower_comma app_sets nocache_sets)

text \<open>
  C6, as the claim states it, fails in two ways. With the external tagger not in use, the
  lemma \<^verbatim>\<open>xyzzy\<close> (matched by no lexical rule, and carrying no external tag) with the
  part of speech NOUN gets the code O2, not the sentinel Z99. With the external tagger in
  use, the first tag of the list is copied as it is, so a list whose first tag is the
  empty string gives an empty semantic code.
\<close>

theorem semantic_claim_counterexample:
  "lower ''xyzzy'' \<notin> emotion_positive \<union> emotion_negative \<union> movement_verbs \<union> speech_verbs \<union>
      thought_verbs \<union> positive_adj \<union> negative_adj \<union> time_words
   \<and> annotate_token get_semantic_fallback False
       (full_token ''xyzzy'' ''NOUN'' ''NN'' ''ROOT'' 0 ''xyzzy'' False False None)
     = Inr (token_dict ''xyzzy'' ''NOUN'' ''NN'' ''ROOT'' 0 ''xyzzy'' False False ''O2'')
   \<and> semantic (token_dict ''xyzzy'' ''NOUN'' ''NN'' ''ROOT'' 0 ''xyzzy'' False False ''O2'')
       \<noteq> ''Z99''
   \<and> annotate_token get_semantic_fallback True
       (full_token ''xyzzy'' ''NOUN'' ''NN'' ''ROOT'' 0 ''xyzzy'' False False (Some ['''']))
     = Inr (token_dict ''xyzzy'' ''NOUN'' ''NN'' ''ROOT'' 0 ''xyzzy'' False False '''')
   \<and> semantic (token_dict ''xyzzy'' ''NOUN'' ''NN'' ''ROOT'' 0 ''xyzzy'' False False '''') = ''''"
proof -
  have a: "annotate_token get_semantic_fallback False
       (full_token ''xyzzy'' ''NOUN'' ''NN'' ''ROOT'' 0 ''xyzzy'' False False None)
     = Inr (token_dict ''xyzzy'' ''NOUN'' ''NN'' ''ROOT'' 0 ''xyzzy'' False False ''O2'')"
    by (rule annotate_full_token) (simp add: primary_semantic_full_code fallback_examples)
  have b: "annotate_token get_semantic_fallback True
       (full_token ''xyzzy'' ''NOUN'' ''NN'' ''ROOT'' 0 ''xyzzy'' False False (Some ['''']))
     = Inr (token_dict ''xyzzy'' ''NOUN'' ''NN'' ''ROOT'' 0 ''xyzzy'' False False '''')"
    by (rule annotate_full_token) (simp add: primary_semantic_full_code)
  have c: "lower ''xyzzy'' \<notin> emotion_positive \<union> emotion_negative \<union> movement_verbs \<union>
      speech_verbs \<union> thought_verbs \<union> positive_adj \<union> negative_adj \<union> time_words"
    by (simp add: lower_xyzzy app_sets)
  show ?thesis
    using a b c by (simp add: token_dict_def)
qed

text \<open>
  The tagger in use with an empty list gives Z99, with the tags M1, Z5 it gives M1; the
  comma, a PUNCT token with the tagger not in use, gives Z99 through the fallback tagger;
  \<^verbatim>\<open>xyzzy\<close>, a NOUN without a tag list, gives O2.
\<close>

theorem semantic_empty_only_from_tagger_witness:
  "annotate_token get_semantic_fallback True
       (full_token ''went'' ''VERB'' ''VBD'' ''ROOT'' 1 ''go'' False False (Some []))
     = Inr (token_dict ''went'' ''VERB'' ''VBD'' ''ROOT'' 1 ''go'' False False ''Z99'')
   \<and> annotate_token get_semantic_fallback_nocache True
       (full_token ''went'' ''VERB'' ''VBD'' ''ROOT'' 1 ''go'' False False (Some [''M1'', ''Z5'']))
     = Inr (token_dict ''went'' ''VERB'' ''VBD'' ''ROOT'' 1 ''go'' False False ''M1'')
   \<and> lower '','' \<notin> emotion_positive \<union> emotion_negative \<union> movement_verbs \<union> speech_verbs \<union>
        thought_verbs \<union> positive_adj \<union> negative_adj \<union> time_words
   \<and> lower '','' \<notin> emotion_pos \<union> emotion_neg \<union> movement \<union> speech \<union> thought
   \<and> annotate_token get_semantic_fallback False
       (full_token '','' ''PUNCT'' '','' ''punct'' 1 '','' False True None)
     = Inr (token_dict '','' ''PUNCT'' '','' ''punct'' 1 '','' False True ''Z99'')
   \<and> annotate_token get_semantic_fallback_nocache False
       (full_token '','' ''PUNCT'' '','' ''punct'' 1 '','' False True None)
     = Inr (token_dict '','' ''PUNCT'' '','' ''punct'' 1 '','' False True ''Z99'')
   \<and> lower ''xyzzy'' \<notin> emotion_positive \<union> emotion_negative \<union> movement_verbs \<union> speech_verbs \<union>
        thought_verbs \<union> positive_adj \<union> negative_adj \<union> time_words
   \<and> annotate_token get_semantic_fallback True
       (full_token ''xyzzy'' ''NOUN'' ''NN'' ''ROOT'' 0 ''xyzzy'' False False None)
     = Inr (token_dict ''xyzzy'' ''NOUN'' ''NN'' ''ROOT'' 0 ''xyzzy'' False False ''O2'')"
proof -
  have c: "lower '','' \<notin> emotion_positive \<union> emotion_negative \<union> movement_verbs \<union>
      speech_verbs \<union> thought_verbs \<union> positive_adj \<union> negative_adj \<union> time_words"
    "lower '','' \<notin> emotion_pos \<union> emotion_neg \<union> movement \<union> speech \<union> thought"
    "lower ''xyzzy'' \<notin> emotion_positive \<union> emotion_negative \<union> movement_verbs \<union>
      speech_verbs \<union> thought_verbs \<union> positive_adj \<union> negative_adj \<union> time_words"
    by (simp_all add: lower_comma lower_xyzzy app_sets nocache_sets)
  show ?thesis
    using c
      semantic_empty_only_from_tagger [where flag = True and w = "''went''" and p = "''VERB''"
        and g = "''VBD''" and d = "''ROOT''" and h = 1 and l = "''go''" and s = False
        and u = False and tags = "Some []"]
      semantic_empty_only_from_tagger [where flag = True and w = "''went''" and p = "''VERB''"
        and g = "''VBD''" and d = "''ROOT''" and h = 1 and l = "''go''" and s = False
        and u = False and tags = "Some [''M1'', ''Z5'']" and t = "''M1''" and ts = "[''Z5'']"]
      semantic_empty_only_from_tagger [where flag = False and w = "'',''" and p = "''PUNCT''"
        and g = "'',''" and d = "''punct''" and h = 1 and l = "'',''" and s = False
        and u = True and tags = None]
      semantic_empty_only_from_tagger [where flag = True and w = "''xyzzy''" and p = "''NOUN''"
        and g = "''NN''" and d = "''ROOT''" and h = 0 and l = "''xyzzy''" and s = False
        and u = False and tags = None]
    by (simp add: token_dict_def)
qed

text \<open>
  C9, as the claim states it, fails in its last part: with the external tagger in use, Z99
  is also produced for a token without the tag attribute (the fallback tagger answers Z99
  for the comma, a PUNCT token), and for a token whose non-empty tag list starts with Z99.
\<close>

theorem sentinel_counterexample:
  "tok_underscore (full_token '','' ''PUNCT'' '','' ''punct'' 1 '','' False True None)
     = Some (Underscore None)
   \<and> annotate_token get_semantic_fallback True
       (full_token '','' ''PUNCT'' '','' ''punct'' 1 '','' False True None)
     = Inr (token_dict '','' ''PUNCT'' '','' ''punct'' 1 '','' False True ''Z99'')
   \<and> annotate_token get_semantic_fallback_nocache True
       (full_token '','' ''PUNCT'' '','' ''punct'' 1 '','' False True None)
     = Inr (token_dict '','' ''PUNCT'' '','' ''punct'' 1 '','' False True ''Z99'')
   \<and> annotate_token get_semantic_fallback True
       (full_token ''xyzzy'' ''NOUN'' ''NN'' ''ROOT'' 0 ''xyzzy'' False False (Some [''Z99'']))
     = Inr (token_dict ''xyzzy'' ''NOUN'' ''NN'' ''ROOT'' 0 ''xyzzy'' False False ''Z99'')
   \<and> semantic (token_dict '','' ''PUNCT'' '','' ''punct'' 1 '','' False True ''Z99'') = ''Z99''"
proof -
  have a: "annotate_token get_semantic_fallback True
       (full_token '','' ''PUNCT'' '','' ''punct'' 1 '','' False True None)
     = Inr (token_dict '','' ''PUNCT'' '','' ''punct'' 1 '','' False True ''Z99'')"
    by (rule annotate_full_token) (simp add: primary_semantic_full_code fallback_examples)
  have b: "annotate_token get_semantic_fallback_nocache True
       (full_token '','' ''PUNCT'' '','' ''punct'' 1 '','' False True None)
     = Inr (token_dict '','' ''PUNCT'' '','' ''punct'' 1 '','' False True ''Z99'')"
    by (rule annotate_full_token) (simp add: primary_semantic_full_code fallback_examples)
  have c: "annotate_token get_semantic_fallback True
       (full_token ''xyzzy'' ''NOUN'' ''NN'' ''ROOT'' 0 ''xyzzy'' False False (Some [''Z99'']))
     = Inr (token_dict ''xyzzy'' ''NOUN'' ''NN'' ''ROOT'' 0 ''xyzzy'' False False ''Z99'')"
    by (rule annotate_full_token) (simp add: primary_semantic_full_code)
  show ?thesis
    using a b c by (simp add: token_dict_def full_token_sel)
qed

text \<open>
  C9, amended. With the external tagger in use, a token without the tag attribute gets
  the result of the fallback tagger of its file, and a token whose attribute is present
  with an empty list gets Z99 whatever its lemma and part of speech. Z99 is produced in
  exactly three cases: the list is present and empty, the first tag of the list is Z99,
  or the attribute is absent and the fallback tagger answers Z99.
\<close>

theorem fallback_when_attribute_absent:
  "(tok_underscore token = Some (Underscore None) \<longrightarrow>
      primary_semantic fallback True token = fallback token)
   \<and> annotate_token get_semantic_fallback True (full_token w p g d h l s u None)
       = Inr (token_dict w p g d h l s u (semantic_fallback l p))
   \<and> annotate_token get_semantic_fallback_nocache True (full_token w p g d h l s u None)
       = Inr (token_dict w p g d h l s u (semantic_fallback_nocache l p))
   \<and> (tok_underscore token = Some (Underscore (Some [])) \<longrightarrow>
        primary_semantic fallback True token = Inr ''Z99'')
   \<and> (primary_semantic fallback True token = Inr ''Z99'' \<longleftrightarrow>
        tok_underscore token = Some (Underscore (Some []))
        \<or> (\<exists>ts. tok_underscore token = Some (Underscore (Some (''Z99'' # ts))))
        \<or> (tok_underscore token = Some (Underscore None) \<and> fallback token = Inr ''Z99''))"
proof (intro conjI impI)
  assume "tok_underscore token = Some (Underscore None)"
  then show "primary_semantic fallback True token = fallback token"
    by (simp add: primary_semantic_def getattr_def)
next
  show "annotate_token get_semantic_fallback True (full_token w p g d h l s u None)
       = Inr (token_dict w p g d h l s u (semantic_fallback l p))"
    by (rule annotate_full_token) (simp add: primary_semantic_full_code)
  show "annotate_token get_semantic_fallback_nocache True (full_token w p g d h l s u None)
       = Inr (token_dict w p g d h l s u (semantic_fallback_nocache l p))"
    by (rule annotate_full_token) (simp add: primary_semantic_full_code)
next
  assume "tok_underscore token = Some (Underscore (Some []))"
  then show "primary_semantic fallback True token = Inr ''Z99''"
    by (simp add: primary_semantic_def getattr_def)
next
  show "primary_semantic fallback True token = Inr ''Z99'' \<longleftrightarrow>
        tok_underscore token = Some (Underscore (Some []))
        \<or> (\<exists>ts. tok_underscore token = Some (Underscore (Some (''Z99'' # ts))))
        \<or> (tok_underscore token = Some (Underscore None) \<and> fallback token = Inr ''Z99'')"
  proof (cases "tok_underscore token")
    case None
    then show ?thesis by (simp add: primary_semantic_def getattr_def)
  next
    case (Some ext)
    obtain x where ext: "ext = Underscore x" by (cases ext)
    show ?thesis
    proof (cases x)
      case None
      with Some ext show ?thesis by (simp add: primary_semantic_def getattr_def)
    next
      case (Some ts)
      with \<open>tok_underscore token = Some ext\<close> ext show ?thesis
        by (cases ts) (simp_all add: primary_semantic_def getattr_def)
    qed
  qed
qed

text \<open>
  The lemma \<^verbatim>\<open>go\<close> without the attribute is tagged M1 by the fallback tagger; with the
  attribute present and empty it is tagged Z99.
\<close>

theorem fallback_when_attribute_absent_witness:
  "tok_underscore (full_token ''went'' ''VERB'' ''VBD'' ''ROOT'' 1 ''go'' False False None)
     = Some (Underscore None)
   \<and> primary_semantic get_semantic_fallback True
       (full_token ''went'' ''VERB'' ''VBD'' ''ROOT'' 1 ''go'' False False None)
     = Inr (semantic_fallback ''go'' ''VERB'')
   \<and> semantic_fallback ''go'' ''VERB'' = ''M1''
   \<and> tok_underscore (full_token ''went'' ''VERB'' ''VBD'' ''ROOT'' 1 ''go'' False False (Some []))
       = Some (Underscore (Some []))
   \<and> primary_semantic get_semantic_fallback True
       (full_token ''went'' ''VERB'' ''VBD'' ''ROOT'' 1 ''go'' False False (Some []))
     = Inr ''Z99''"
proof -
  have lc: "lower ''go'' = ''go''" by code_simp
  have m: "semantic_fallback ''go'' ''VERB'' = ''M1''"
    by (simp add: semantic_fallback_def Let_def lc app_sets)
  show ?thesis
    using m
      fallback_when_attribute_absent [of
        "full_token ''went'' ''VERB'' ''VBD'' ''ROOT'' 1 ''go'' False False None"
        get_semantic_fallback]
      fallback_when_attribute_absent [of
        "full_token ''went'' ''VERB'' ''VBD'' ''ROOT'' 1 ''go'' False False (Some [])"
        get_semantic_fallback]
    by (simp add: full_token_sel get_semantic_fallback_full)
qed

section \<open>Tokens that lack an attribute\<close>

lemma primary_semantic_Inr_underscore:
  "primary_semantic fallback True k = Inr sem \<Longrightarrow> tok_underscore k \<noteq> None"
  by (cases "tok_underscore k") (simp_all add: primary_semantic_def getattr_def)

lemma annotate_token_Inr_present:
  assumes "annotate_token fallback flag k = Inr a"
  shows "attributes_present flag k"
proof -
  from assms have r: "has_required_fields k"
    by (auto simp add: annotate_token_def getattr_def has_required_fields_def
        split: sum.splits option.splits)
  from assms obtain sem where "primary_semantic fallback flag k = Inr sem"
    by (auto simp add: annotate_token_def split: sum.splits)
  then have "flag \<longrightarrow> tok_underscore k \<noteq> None"
    using primary_semantic_Inr_underscore by (cases flag) auto
  with r show ?thesis by (simp add: attributes_present_def)
qed

lemma annotate_token_fields:
  assumes "has_required_fields k" and "primary_semantic fallback flag k = Inr sem"
  shows "\<exists>a. annotate_token fallback flag k = Inr a"
proof -
  from assms(1) obtain w p g d h l s u where
    "tok_text k = Some w" "tok_pos k = Some p" "tok_tag k = Some g" "tok_dep k = Some d"
    "tok_head k = Some h" "tok_lemma k = Some l" "tok_is_stop k = Some s"
    "tok_is_punct k = Some u"
    by (auto simp add: has_required_fields_def)
  with assms(2) show ?thesis
    by (simp add: annotate_token_def getattr_def)
qed

lemma get_semantic_fallback_Inr:
  assumes "has_required_fields k"
  shows "\<exists>c. get_semantic_fallback k = Inr c" and "\<exists>c. get_semantic_fallback_nocache k = Inr c"
proof -
  from assms obtain p l where "tok_pos k = Some p" "tok_lemma k = Some l"
    by (auto simp add: has_required_fields_def)
  then show "\<exists>c. get_semantic_fallback k = Inr c"
    and "\<exists>c. get_semantic_fallback_nocache k = Inr c"
    by (simp_all add: get_semantic_fallback_def get_semantic_fallback_nocache_def getattr_def)
qed

lemma primary_semantic_Inr:
  assumes "attributes_present flag k" and "\<exists>c. fallback k = Inr c"
  shows "\<exists>sem. primary_semantic fallback flag k = Inr sem"
proof (cases flag)
  case False
  with assms(2) show ?thesis by (simp add: primary_semantic_def)
next
  case True
  with assms(1) obtain ext where e: "tok_underscore k = Some ext"
    by (auto simp add: attributes_present_def)
  obtain x where x: "ext = Underscore x" by (cases ext)
  show ?thesis
  proof (cases x)
    case None
    with True e x assms(2) show ?thesis by (simp add: primary_semantic_def getattr_def)
  next
    case (Some ts)
    with True e x show ?thesis by (simp add: primary_semantic_def getattr_def)
  qed
qed

lemma annotate_token_present_Inr:
  assumes "attributes_present flag k"
  shows "\<exists>a. annotate_token get_semantic_fallback flag k = Inr a"
    and "\<exists>a. annotate_token get_semantic_fallback_nocache flag k = Inr a"
proof -
  from assms have r: "has_required_fields k" by (simp add: attributes_present_def)
  from primary_semantic_Inr [of flag k get_semantic_fallback, OF assms
      get_semantic_fallback_Inr(1) [OF r]]
  obtain sem where "primary_semantic get_semantic_fallback flag k = Inr sem" by blast
  from annotate_token_fields [OF r this]
  show "\<exists>a. annotate_token get_semantic_fallback flag k = Inr a" .
  from primary_semantic_Inr [of flag k get_semantic_fallback_nocache, OF assms
      get_semantic_fallback_Inr(2) [OF r]]
  obtain sem where "primary_semantic get_semantic_fallback_nocache flag k = Inr sem" by blast
  from annotate_token_fields [OF r this]
  show "\<exists>a. annotate_token get_semantic_fallback_nocache flag k = Inr a" .
qed

lemma getattr_Inl: "getattr name v = Inl e \<Longrightarrow> exc_class e = ''AttributeError''"
  by (cases v) (auto simp add: getattr_def)

lemma get_semantic_fallback_Inl:
  "get_semantic_fallback k = Inl e \<Longrightarrow> exc_class e = ''AttributeError''"
  "get_semantic_fallback_nocache k = Inl e \<Longrightarrow> exc_class e = ''AttributeError''"
  by (auto simp add: get_semantic_fallback_def get_semantic_fallback_nocache_def
      split: sum.splits dest: getattr_Inl)

lemma primary_semantic_Inl:
  assumes "primary_semantic fallback flag k = Inl e"
    and "\<And>e'. fallback k = Inl e' \<Longrightarrow> exc_class e' = ''AttributeError''"
  shows "exc_class e = ''AttributeError''"
  using assms
  by (auto simp add: primary_semantic_def split: if_splits sum.splits option.splits
      dest: getattr_Inl)

lemma annotate_token_Inl:
  assumes "annotate_token fallback flag k = Inl e"
    and "\<And>e'. fallback k = Inl e' \<Longrightarrow> exc_class e' = ''AttributeError''"
  shows "exc_class e = ''AttributeError''"
proof (cases "primary_semantic fallback flag k")
  case (Inl e')
  with assms(1) have "e' = e" by (simp add: annotate_token_def)
  with Inl assms(2) show ?thesis by (auto dest: primary_semantic_Inl)
next
  case (Inr sem)
  with assms(1) show ?thesis
    by (auto simp add: annotate_token_def split: sum.splits dest: getattr_Inl)
qed

lemma annotate_token_fails_iff:
  "(\<exists>e. annotate_token get_semantic_fallback flag k = Inl e) = (\<not> attributes_present flag k)"
  "(\<exists>e. annotate_token get_semantic_fallback_nocache flag k = Inl e)
     = (\<not> attributes_present flag k)"
proof -
  have ex: "\<And>r :: py_exception + annotation. (\<exists>e. r = Inl e) = (\<forall>b. r \<noteq> Inr b)"
    by (case_tac r) simp_all
  show "(\<exists>e. annotate_token get_semantic_fallback flag k = Inl e)
     = (\<not> attributes_present flag k)"
    unfolding ex using annotate_token_present_Inr(1) annotate_token_Inr_present by blast
  show "(\<exists>e. annotate_token get_semantic_fallback_nocache flag k = Inl e)
     = (\<not> attributes_present flag k)"
    unfolding ex using annotate_token_present_Inr(2) annotate_token_Inr_present by blast
qed

lemma annotate_doc_Inr:
  "annotate_doc fallback flag doc = Inr anns \<Longrightarrow>
   list_all2 (\<lambda>k a. annotate_token fallback flag k = Inr a) doc anns"
  by (induction doc arbitrary: anns) (auto split: sum.splits)

lemma annotate_doc_Inl:
  "annotate_doc fallback flag doc = Inl e \<Longrightarrow>
   \<exists>k. k \<in> set doc \<and> annotate_token fallback flag k = Inl e"
  by (induction doc) (auto split: sum.splits)

lemma annotate_doc_all_Inr:
  "list_all (\<lambda>k. \<exists>a. annotate_token fallback flag k = Inr a) doc \<Longrightarrow>
   \<exists>anns. annotate_doc fallback flag doc = Inr anns"
  by (induction doc) (auto split: sum.splits)

lemma annotate_doc_total:
  assumes good: "\<forall>k. attributes_present flag k \<longrightarrow> (\<exists>a. annotate_token fallback flag k = Inr a)"
    and bad: "\<forall>k e. annotate_token fallback flag k = Inl e \<longrightarrow> exc_class e = ''AttributeError''"
  shows "list_all (attributes_present flag) doc \<Longrightarrow>
      \<exists>anns. annotate_doc fallback flag doc = Inr anns
         \<and> list_all2 (\<lambda>k a. annotate_token fallback flag k = Inr a) doc anns
         \<and> length anns = length doc"
    and "\<not> list_all (attributes_present flag) doc \<Longrightarrow>
      \<exists>a. annotate_doc fallback flag doc = Inl (AttributeError a)"
proof -
  assume all: "list_all (attributes_present flag) doc"
  then have "list_all (\<lambda>k. \<exists>a. annotate_token fallback flag k = Inr a) doc"
    by (simp add: list_all_iff good)
  then obtain anns where a: "annotate_doc fallback flag doc = Inr anns"
    using annotate_doc_all_Inr by blast
  from annotate_doc_Inr [OF a]
  have l: "list_all2 (\<lambda>k a. annotate_token fallback flag k = Inr a) doc anns" .
  then have "length anns = length doc"
    by (simp add: list_all2_lengthD)
  with a l show "\<exists>anns. annotate_doc fallback flag doc = Inr anns
         \<and> list_all2 (\<lambda>k a. annotate_token fallback flag k = Inr a) doc anns
         \<and> length anns = length doc" by blast
next
  assume nall: "\<not> list_all (attributes_present flag) doc"
  show "\<exists>a. annotate_doc fallback flag doc = Inl (AttributeError a)"
  proof (cases "annotate_doc fallback flag doc")
    case (Inl e)
    from annotate_doc_Inl [OF Inl] bad have "exc_class e = ''AttributeError''" by blast
    with Inl show ?thesis by (cases e) simp
  next
    case (Inr anns)
    from annotate_doc_Inr [OF Inr]
    have "\<forall>k \<in> set doc. \<exists>a. annotate_token fallback flag k = Inr a"
      by (auto simp add: list_all2_conv_all_nth in_set_conv_nth)
    then have "list_all (attributes_present flag) doc"
      by (auto simp add: list_all_iff dest: annotate_token_Inr_present)
    with nall show ?thesis by simp
  qed
qed

lemma annotate_token_fallback_Inl:
  "annotate_token get_semantic_fallback flag k = Inl e \<Longrightarrow> exc_class e = ''AttributeError''"
  "annotate_token get_semantic_fallback_nocache flag k = Inl e \<Longrightarrow>
     exc_class e = ''AttributeError''"
  by (erule annotate_token_Inl, erule get_semantic_fallback_Inl)+

text \<open>
  C7, as the claim states it, fails in two ways. With the flag \<^verbatim>\<open>HAS_PYMUSAS\<close> set, a
  token that carries all eight fields of a raw token but not the attribute \<^verbatim>\<open>_\<close> makes
  the loop body fail, although no required field is missing. And the exception of a
  token without \<^verbatim>\<open>tag_\<close> is Python's \<^verbatim>\<open>AttributeError\<close>, not a
  \<^verbatim>\<open>MalformedTokenError\<close>.
\<close>

theorem malformed_token_counterexample:
  "has_required_fields
       ((full_token ''now'' ''ADV'' ''RB'' ''advmod'' 0 ''now'' True False None)
          \<lparr>tok_underscore := None\<rparr>)
   \<and> annotate_token get_semantic_fallback True
       ((full_token ''now'' ''ADV'' ''RB'' ''advmod'' 0 ''now'' True False None)
          \<lparr>tok_underscore := None\<rparr>)
     = Inl (PyException ''AttributeError'' ''_'')
   \<and> annotate_token get_semantic_fallback True
       ((full_token ''now'' ''ADV'' ''RB'' ''advmod'' 0 ''now'' True False None)
          \<lparr>tok_tag := None\<rparr>)
     = Inl (PyException ''AttributeError'' ''tag_'')
   \<and> exc_class (PyException ''AttributeError'' ''tag_'') \<noteq> ''MalformedTokenError''"
  by (simp add: has_required_fields_def full_token_def annotate_token_def
      primary_semantic_def get_semantic_fallback_def getattr_def)

text \<open>
  C7, amended. In both files the loop body fails exactly when the token lacks one of the
  attributes it reads: the eight fields of a raw token and, when the flag
  \<^verbatim>\<open>HAS_PYMUSAS\<close> is set, the attribute \<^verbatim>\<open>_\<close>. The failure is an \<^verbatim>\<open>AttributeError\<close>.
  When the pipeline has returned the document, such a failure on any of its tokens makes
  the whole request fail with the 500 response, which carries no annotation; otherwise
  the 200 response carries one annotation for every token of the document, in the order
  of the document, so no token is skipped and no partial list is returned.
\<close>

theorem missing_attribute_fails_request:
  "((\<exists>e. annotate_token get_semantic_fallback flag k = Inl e) = (\<not> attributes_present flag k))
   \<and> ((\<exists>e. annotate_token get_semantic_fallback_nocache flag k = Inl e)
        = (\<not> attributes_present flag k))
   \<and> (annotate_token get_semantic_fallback flag k = Inl e \<longrightarrow> exc_class e = ''AttributeError'')
   \<and> (annotate_token get_semantic_fallback_nocache flag k = Inl e \<longrightarrow>
        exc_class e = ''AttributeError'')
   \<and> (data_text d = Some t \<and> nlp t = Inr doc \<longrightarrow>
        (if list_all (attributes_present flag) doc
         then (\<exists>r. analyze_text nlp flag (Inr (Some d)) = Json200 r
                 \<and> list_all2 (\<lambda>k a. annotate_token get_semantic_fallback flag k = Inr a)
                      doc (tokens r)
                 \<and> num_tokens r = length doc)
         else (\<exists>a. analyze_text nlp flag (Inr (Some d)) = Json500 (AttributeError a))))
   \<and> (data_text d = Some t \<and> nlp t = Inr doc \<longrightarrow>
        (if list_all (attributes_present flag) doc
         then (\<exists>r. analyze_text_nocache nlp flag POST (Inr (Some d)) = Json200 r
                 \<and> list_all2 (\<lambda>k a. annotate_token get_semantic_fallback_nocache flag k = Inr a)
                      doc (tokens r)
                 \<and> num_tokens r = length doc)
         else (\<exists>a. analyze_text_nocache nlp flag POST (Inr (Some d))
                 = Json500 (AttributeError a))))"
proof (intro conjI impI)
  show "(\<exists>e. annotate_token get_semantic_fallback flag k = Inl e)
      = (\<not> attributes_present flag k)"
    by (rule annotate_token_fails_iff)
  show "(\<exists>e. annotate_token get_semantic_fallback_nocache flag k = Inl e)
      = (\<not> attributes_present flag k)"
    by (rule annotate_token_fails_iff)
next
  assume "annotate_token get_semantic_fallback flag k = Inl e"
  then show "exc_class e = ''AttributeError''"
    by (rule annotate_token_Inl) (rule get_semantic_fallback_Inl)
next
  assume "annotate_token get_semantic_fallback_nocache flag k = Inl e"
  then show "exc_class e = ''AttributeError''"
    by (rule annotate_token_Inl) (rule get_semantic_fallback_Inl)
next
  assume t: "data_text d = Some t \<and> nlp t = Inr doc"
  have good: "\<forall>k. attributes_present flag k \<longrightarrow>
      (\<exists>a. annotate_token get_semantic_fallback flag k = Inr a)"
    using annotate_token_present_Inr(1) by blast
  have bad: "\<forall>k e. annotate_token get_semantic_fallback flag k = Inl e \<longrightarrow>
      exc_class e = ''AttributeError''"
    using annotate_token_fallback_Inl(1) by blast
  show "if list_all (attributes_present flag) doc
         then (\<exists>r. analyze_text nlp flag (Inr (Some d)) = Json200 r
                 \<and> list_all2 (\<lambda>k a. annotate_token get_semantic_fallback flag k = Inr a)
                      doc (tokens r)
                 \<and> num_tokens r = length doc)
         else (\<exists>a. analyze_text nlp flag (Inr (Some d)) = Json500 (AttributeError a))"
  proof (cases "list_all (attributes_present flag) doc")
    case True
    from annotate_doc_total(1) [OF good bad True]
    obtain anns where "annotate_doc get_semantic_fallback flag doc = Inr anns"
      "list_all2 (\<lambda>k a. annotate_token get_semantic_fallback flag k = Inr a) doc anns"
      "length anns = length doc" by blast
    with t True show ?thesis
      by (simp add: analyze_text_def Let_def)
  next
    case False
    from annotate_doc_total(2) [OF good bad False]
    obtain a where "annotate_doc get_semantic_fallback flag doc = Inl (AttributeError a)"
      by blast
    with t False show ?thesis
      by (simp add: analyze_text_def Let_def)
  qed
next
  assume t: "data_text d = Some t \<and> nlp t = Inr doc"
  have good: "\<forall>k. attributes_present flag k \<longrightarrow>
      (\<exists>a. annotate_token get_semantic_fallback_nocache flag k = Inr a)"
    using annotate_token_present_Inr(2) by blast
  have bad: "\<forall>k e. annotate_token get_semantic_fallback_nocache flag k = Inl e \<longrightarrow>
      exc_class e = ''AttributeError''"
    using annotate_token_fallback_Inl(2) by blast
  show "if list_all (attributes_present flag) doc
         then (\<exists>r. analyze_text_nocache nlp flag POST (Inr (Some d)) = Json200 r
                 \<and> list_all2 (\<lambda>k a. annotate_token get_semantic_fallback_nocache flag k = Inr a)
                      doc (tokens r)
                 \<and> num_tokens r = length doc)
         else (\<exists>a. analyze_text_nocache nlp flag POST (Inr (Some d))
                 = Json500 (AttributeError a))"
  proof (cases "list_all (attributes_present flag) doc")
    case True
    from annotate_doc_total(1) [OF good bad True]
    obtain anns where "annotate_doc get_semantic_fallback_nocache flag doc = Inr anns"
      "list_all2 (\<lambda>k a. annotate_token get_semantic_fallback_nocache flag k = Inr a) doc anns"
      "length anns = length doc" by blast
    with t True show ?thesis
      by (simp add: analyze_text_nocache_def)
  next
    case False
    from annotate_doc_total(2) [OF good bad False]
    obtain a where
      "annotate_doc get_semantic_fallback_nocache flag doc = Inl (AttributeError a)"
      by blast
    with t False show ?thesis
      by (simp add: analyze_text_nocache_def)
  qed
qed

text \<open>
  A document of two tokens whose second token lacks \<^verbatim>\<open>tag_\<close> fails as a whole; the
  same document with the attribute in place gives two annotations.
\<close>

theorem missing_attribute_fails_request_witness:
  "\<not> attributes_present True
       ((full_token ''now'' ''ADV'' ''RB'' ''advmod'' 0 ''now'' True False None)\<lparr>tok_tag := None\<rparr>)
   \<and> (\<exists>e. annotate_token get_semantic_fallback True
          ((full_token ''now'' ''ADV'' ''RB'' ''advmod'' 0 ''now'' True False None)\<lparr>tok_tag := None\<rparr>)
        = Inl e)
   \<and> data_text \<lparr>data_text = Some ''Go now'', data_corpus_name = None\<rparr> = Some ''Go now''
   \<and> \<not> list_all (attributes_present True)
       [full_token ''Go'' ''VERB'' ''VB'' ''ROOT'' 0 ''go'' False False None,
        (full_token ''now'' ''ADV'' ''RB'' ''advmod'' 0 ''now'' True False None)\<lparr>tok_tag := None\<rparr>]
   \<and> (\<exists>a. analyze_text
          (\<lambda>t. Inr [full_token ''Go'' ''VERB'' ''VB'' ''ROOT'' 0 ''go'' False False None,
                (full_token ''now'' ''ADV'' ''RB'' ''advmod'' 0 ''now'' True False None)
                  \<lparr>tok_tag := None\<rparr>])
          True (Inr (Some \<lparr>data_text = Some ''Go now'', data_corpus_name = None\<rparr>))
        = Json500 (AttributeError a))
   \<and> list_all (attributes_present False)
       [full_token ''Go'' ''VERB'' ''VB'' ''ROOT'' 0 ''go'' False False None,
        full_token ''now'' ''ADV'' ''RB'' ''advmod'' 0 ''now'' True False None]
   \<and> (\<exists>r. analyze_text_nocache
          (\<lambda>t. Inr [full_token ''Go'' ''VERB'' ''VB'' ''ROOT'' 0 ''go'' False False None,
                full_token ''now'' ''ADV'' ''RB'' ''advmod'' 0 ''now'' True False None])
          False POST (Inr (Some \<lparr>data_text = Some ''Go now'', data_corpus_name = None\<rparr>))
        = Json200 r \<and> num_tokens r = 2)"
proof -
  let ?go = "full_token ''Go'' ''VERB'' ''VB'' ''ROOT'' 0 ''go'' False False None"
  let ?now = "full_token ''now'' ''ADV'' ''RB'' ''advmod'' 0 ''now'' True False None"
  let ?d = "\<lparr>data_text = Some ''Go now'', data_corpus_name = None\<rparr>"
  have bad: "\<not> attributes_present True (?now\<lparr>tok_tag := None\<rparr>)"
    by (simp add: attributes_present_def has_required_fields_def)
  then have bad_doc: "\<not> list_all (attributes_present True) [?go, ?now\<lparr>tok_tag := None\<rparr>]"
    by simp
  have good_doc: "list_all (attributes_present False) [?go, ?now]"
    by (simp add: attributes_present_def has_required_fields_full_token)
  note a = missing_attribute_fails_request [where flag = True
      and k = "?now\<lparr>tok_tag := None\<rparr>" and e = "AttributeError ''tag_''" and d = ?d and t = "''Go now''"
      and nlp = "\<lambda>t. Inr [?go, ?now\<lparr>tok_tag := None\<rparr>]"
      and doc = "[?go, ?now\<lparr>tok_tag := None\<rparr>]"]
  note b = missing_attribute_fails_request [where flag = False
      and k = ?now and e = "AttributeError ''tag_''" and d = ?d and t = "''Go now''"
      and nlp = "\<lambda>t. Inr [?go, ?now]" and doc = "[?go, ?now]"]
  from a bad have 1: "\<exists>e. annotate_token get_semantic_fallback True
      (?now\<lparr>tok_tag := None\<rparr>) = Inl e"
    by blast
  from a bad_doc have 2: "\<exists>a. analyze_text (\<lambda>t. Inr [?go, ?now\<lparr>tok_tag := None\<rparr>]) True
      (Inr (Some ?d)) = Json500 (AttributeError a)"
    by simp
  from b good_doc have 3: "\<exists>r. analyze_text_nocache (\<lambda>t. Inr [?go, ?now]) False POST
      (Inr (Some ?d)) = Json200 r \<and> num_tokens r = 2"
    by auto
  from bad bad_doc good_doc 1 2 3 show ?thesis
    by simp
qed

end
